theory Spec2Isabelle
  imports Complex_Main
begin

section \<open>JavaScript strings and numbers\<close>

text \<open>
  A JavaScript string is modelled as a \<open>string\<close> whose characters are code units below
  256. Case mapping is modelled on the ASCII letters; no other code unit maps to an ASCII
  letter, so comparisons with \<open>''id''\<close> are exact. Objects used as dictionaries are finite
  maps (inherited properties of \<open>Object.prototype\<close> are outside the model). The numbers
  the providers compute with are row ids; they are modelled as unbounded integers, which
  agrees with JavaScript's doubles below \<open>2 ^ 53\<close>.
\<close>

definition isWhiteSpace :: "char \<Rightarrow> bool" where
  "isWhiteSpace c =
     (c \<in> set [CHR 0x09, CHR 0x0A, CHR 0x0B, CHR 0x0C, CHR 0x0D, CHR 0x20, CHR 0xA0])"

definition trim :: "string \<Rightarrow> string" where
  "trim s = rev (dropWhile isWhiteSpace (rev (dropWhile isWhiteSpace s)))"

definition toLowerChar :: "char \<Rightarrow> char" where
  "toLowerChar c =
     (case map_of (zip ''ABCDEFGHIJKLMNOPQRSTUVWXYZ'' ''abcdefghijklmnopqrstuvwxyz'') c of
        Some l \<Rightarrow> l | None \<Rightarrow> c)"

definition toUpperChar :: "char \<Rightarrow> char" where
  "toUpperChar c =
     (case map_of (zip ''abcdefghijklmnopqrstuvwxyz'' ''ABCDEFGHIJKLMNOPQRSTUVWXYZ'') c of
        Some u \<Rightarrow> u | None \<Rightarrow> c)"

definition toLowerCase :: "string \<Rightarrow> string" where
  "toLowerCase s = map toLowerChar s"

definition toUpperCase :: "string \<Rightarrow> string" where
  "toUpperCase s = map toUpperChar s"

definition isUpperAZ :: "char \<Rightarrow> bool" where
  "isUpperAZ c = (c \<in> set ''ABCDEFGHIJKLMNOPQRSTUVWXYZ'')"

text \<open>\<open>s.split(sep)\<close> for a one-character separator: \<open>''''\<close> splits into \<open>['''']\<close>.\<close>

fun split_loop :: "char \<Rightarrow> string \<Rightarrow> string \<Rightarrow> string list" where
  "split_loop sep [] cur = [cur]"
| "split_loop sep (c # cs) cur =
     (if c = sep then cur # split_loop sep cs [] else split_loop sep cs (cur @ [c]))"

definition split_str :: "char \<Rightarrow> string \<Rightarrow> string list" where
  "split_str sep s = split_loop sep s []"

text \<open>\<open>xs.join(sep)\<close>.\<close>

fun join_str :: "string \<Rightarrow> string list \<Rightarrow> string" where
  "join_str sep [] = []"
| "join_str sep [x] = x"
| "join_str sep (x # y # ys) = x @ sep @ join_str sep (y # ys)"

text \<open>\<open>a || b\<close> on strings: the empty string is falsy.\<close>

definition or_str :: "string \<Rightarrow> string \<Rightarrow> string" where
  "or_str a b = (if a = [] then b else a)"

text \<open>
  \<open>parseInt(s)\<close> with no radix: leading white space is skipped, one sign is read, a
  \<open>0x\<close> prefix selects radix 16, and the longest prefix of digits is the value. \<open>None\<close>
  is \<open>NaN\<close>.
\<close>

definition digitVal :: "char \<Rightarrow> nat" where
  "digitVal c =
     (case map_of (zip ''0123456789abcdef'' [0 ..< 16]) (toLowerChar c) of
        Some d \<Rightarrow> d | None \<Rightarrow> 36)"

definition parseInt :: "string \<Rightarrow> int option" where
  "parseInt s =
     (let s1 = dropWhile isWhiteSpace s;
          neg = (s1 \<noteq> [] \<and> hd s1 = CHR ''-'');
          s2 = (if s1 \<noteq> [] \<and> (hd s1 = CHR ''-'' \<or> hd s1 = CHR ''+'') then tl s1 else s1);
          hex = (length s2 \<ge> 2 \<and> hd s2 = CHR ''0'' \<and> (s2 ! 1 = CHR ''x'' \<or> s2 ! 1 = CHR ''X''));
          R = (if hex then 16 else 10);
          s3 = (if hex then drop 2 s2 else s2);
          ds = takeWhile (\<lambda>c. digitVal c < R) s3;
          v = int (foldl (\<lambda>acc c. acc * R + digitVal c) 0 ds)
      in if ds = [] then None else Some (if neg then - v else v))"

text \<open>\<open>String(n)\<close> for an integer \<open>n\<close>.\<close>

fun digits10 :: "nat \<Rightarrow> string" where
  "digits10 n =
     (if n < 10 then [''0123456789'' ! n]
      else digits10 (n div 10) @ [''0123456789'' ! (n mod 10)])"

declare digits10.simps [simp del]

definition String_of :: "int \<Rightarrow> string" where
  "String_of n = (if n < 0 then CHR ''-'' # digits10 (nat (- n)) else digits10 (nat n))"

section \<open>Errors and the file system\<close>

text \<open>
  A thrown value is an \<open>Error\<close> with a message; errors of Node's \<open>fs\<close> module also carry
  a \<open>code\<close>. A path of the file system holds no file, a file with its text, a file
  with its text that cannot be written (writes fail with the given code and message), or
  is faulty: every read and write of it fails with the given code and message (a
  directory, missing permissions, a missing parent directory).
\<close>

datatype error = Error string | SystemError string string

fun message :: "error \<Rightarrow> string" where
  "message (Error m) = m"
| "message (SystemError c m) = m"

fun code :: "error \<Rightarrow> string option" where
  "code (Error m) = None"
| "code (SystemError c m) = Some c"

datatype node = Absent | File string | ReadOnly string string string | Faulty string string

type_synonym filesystem = "string \<Rightarrow> node"

definition fs_readFile :: "filesystem \<Rightarrow> string \<Rightarrow> error + string" where
  "fs_readFile fs path =
     (case fs path of
        Absent \<Rightarrow> Inl (SystemError ''ENOENT'' (''ENOENT: no such file or directory, open '' @ path))
      | File content \<Rightarrow> Inr content
      | ReadOnly content c m \<Rightarrow> Inr content
      | Faulty c m \<Rightarrow> Inl (SystemError c m))"

definition fs_writeFile :: "filesystem \<Rightarrow> string \<Rightarrow> string \<Rightarrow> (error + unit) \<times> filesystem" where
  "fs_writeFile fs path content =
     (case fs path of
        Faulty c m \<Rightarrow> (Inl (SystemError c m), fs)
      | ReadOnly old c m \<Rightarrow> (Inl (SystemError c m), fs)
      | _ \<Rightarrow> (Inr (), fs(path := File content)))"

section \<open>The file-backed provider (textFileProvider.js)\<close>

record textFileProvider =
  dataDirectory :: string
  authRequired :: bool
  lookupConfig :: "string \<Rightarrow> (string \<Rightarrow> string option) option"

text \<open>
  A field descriptor. The header objects built by \<open>readFile\<close> have no \<open>readonly\<close>
  property and an optional \<open>luFile\<close>; \<open>None\<close> is an absent property.
\<close>

record fieldDef =
  name :: string
  ftype :: string
  luFile :: "string option"
  readonly :: "bool option"

record user =
  user_id :: string
  email :: string

record loginResult =
  success :: bool
  login_user :: user

definition isAuthRequired :: "textFileProvider \<Rightarrow> bool" where
  "isAuthRequired p = authRequired p"

definition login :: "textFileProvider \<Rightarrow> string \<Rightarrow> string \<Rightarrow> loginResult" where
  "login p email_arg password =
     (if \<not> authRequired p
      then \<lparr>success = True, login_user = \<lparr>user_id = ''guest'', email = ''guest''\<rparr>\<rparr>
      else \<lparr>success = True, login_user = \<lparr>user_id = email_arg, email = email_arg\<rparr>\<rparr>)"

text \<open>
  \<open>path.join(dataDirectory, tableName + '.txt')\<close>; the normalisation of \<open>.\<close> and
  \<open>..\<close> segments is not modelled (every operation of one call uses the same path).
\<close>

definition getFilePath :: "textFileProvider \<Rightarrow> string \<Rightarrow> string" where
  "getFilePath p tableName = dataDirectory p @ ''/'' @ tableName @ ''.txt''"

fun parseCSVLine_loop :: "string \<Rightarrow> string list \<Rightarrow> string \<Rightarrow> bool \<Rightarrow> string list" where
  "parseCSVLine_loop [] result current inQuotes = result @ [trim current]"
| "parseCSVLine_loop (c # cs) result current inQuotes =
     (if c = CHR 0x22 then parseCSVLine_loop cs result current (\<not> inQuotes)
      else if c = CHR '','' \<and> \<not> inQuotes then parseCSVLine_loop cs (result @ [trim current]) [] inQuotes
      else parseCSVLine_loop cs result (current @ [c]) inQuotes)"

definition parseCSVLine :: "string \<Rightarrow> string list" where
  "parseCSVLine line = parseCSVLine_loop line [] [] False"

definition mapTypeCode :: "string option \<Rightarrow> string" where
  "mapTypeCode code_arg =
     (case code_arg of
        None \<Rightarrow> ''text''
      | Some c \<Rightarrow>
          if c = [] then ''text''
          else let lowerCode = toLowerCase c in
            if lowerCode = ''int'' \<or> lowerCode = ''integer'' then ''integer''
            else if lowerCode = ''num'' \<or> lowerCode = ''number'' then ''number''
            else if lowerCode = ''dat'' \<or> lowerCode = ''date'' then ''date''
            else if lowerCode = ''bool'' \<or> lowerCode = ''boolean'' then ''boolean''
            else if lowerCode = ''lu'' \<or> lowerCode = ''lookup'' then ''lu''
            else ''text'')"

definition getTypeCode :: "string \<Rightarrow> string" where
  "getTypeCode t =
     (if t = ''integer'' then ''int''
      else if t = ''number'' then ''num''
      else if t = ''date'' then ''dat''
      else if t = ''boolean'' then ''bool''
      else if t = ''lu'' then ''lu''
      else ''str'')"

text \<open>\<open>parts[i]\<close> of an array of strings: \<open>None\<close> is \<open>undefined\<close>.\<close>

definition elem_at :: "'a list \<Rightarrow> nat \<Rightarrow> 'a option" where
  "elem_at xs i = (if i < length xs then Some (xs ! i) else None)"

text \<open>A string-valued expression used as a condition: \<open>undefined\<close> and \<open>''''\<close> are falsy.\<close>

definition truthy :: "string option \<Rightarrow> bool" where
  "truthy v = (case v of None \<Rightarrow> False | Some s \<Rightarrow> s \<noteq> [])"

text \<open>\<open>this.lookupConfig[tableName] && this.lookupConfig[tableName][name]\<close>.\<close>

definition manualLookup :: "textFileProvider \<Rightarrow> string \<Rightarrow> string \<Rightarrow> string option" where
  "manualLookup p tableName n =
     (case lookupConfig p tableName of
        None \<Rightarrow> None
      | Some cols \<Rightarrow> (if truthy (cols n) then cols n else None))"

text \<open>The callback of \<open>firstLine.map\<close> in \<open>readFile\<close>: one header field to its descriptor.\<close>

definition parseHeaderField :: "textFileProvider \<Rightarrow> string \<Rightarrow> string \<Rightarrow> fieldDef" where
  "parseHeaderField p tableName field =
     (let parts = map trim (split_str CHR '':'' field);
          n = or_str (parts ! 0) ''Unknown'';
          t = mapTypeCode (elem_at parts 1)
      in if truthy (elem_at parts 1) \<and> map_option toLowerCase (elem_at parts 1) = Some ''lu''
            \<and> truthy (elem_at parts 2)
         then \<lparr>name = n, ftype = ''lu'', luFile = elem_at parts 2, readonly = None\<rparr>
         else (case manualLookup p tableName n of
                 Some target \<Rightarrow> \<lparr>name = n, ftype = ''lu'', luFile = Some target, readonly = None\<rparr>
               | None \<Rightarrow> \<lparr>name = n, ftype = t, luFile = None, readonly = None\<rparr>))"

text \<open>
  The test at the head of the row loop of \<open>readFile\<close>,
  \<open>!fields[0] || fields[0].trim() === '' || isNaN(parseInt(fields[0]))\<close>, and the
  \<open>parseInt(fields[0])\<close> of its else branch: \<open>None\<close> when the test holds, the parsed
  id otherwise.
\<close>

definition leadingId :: "string list \<Rightarrow> int option" where
  "leadingId cells =
     (case cells of
        [] \<Rightarrow> None
      | f # rest \<Rightarrow> (if f = [] \<or> trim f = [] then None else parseInt f))"

text \<open>
  The row loop of \<open>readFile\<close>: a line whose first field is no number gets the next id in
  front; \<open>nextId\<close> stays above every id seen so far.
\<close>

fun readRows :: "string list \<Rightarrow> int \<Rightarrow> bool \<Rightarrow> string list list \<Rightarrow> string list list \<times> bool" where
  "readRows [] nextId needsUpdate rows = (rows, needsUpdate)"
| "readRows (line # rest) nextId needsUpdate rows =
     (let cells = parseCSVLine line in
      case leadingId cells of
        None \<Rightarrow> readRows rest (nextId + 1) True (rows @ [String_of nextId # cells])
      | Some currentId \<Rightarrow>
          readRows rest (if currentId \<ge> nextId then currentId + 1 else nextId)
            needsUpdate (rows @ [cells]))"

text \<open>The field mapper of \<open>writeFile\<close>: quote a field with a comma, quote or newline.\<close>

definition csvField :: "string \<Rightarrow> string" where
  "csvField field =
     (let fieldStr = or_str field [] in
      if CHR '','' \<in> set fieldStr \<or> CHR 0x22 \<in> set fieldStr \<or> CHR 0x0A \<in> set fieldStr
      then [CHR 0x22] @ concat (map (\<lambda>c. if c = CHR 0x22 then [CHR 0x22, CHR 0x22] else [c]) fieldStr)
           @ [CHR 0x22]
      else fieldStr)"

definition headerField :: "fieldDef \<Rightarrow> string" where
  "headerField h =
     (if ftype h = ''lu'' \<and> truthy (luFile h)
      then name h @ '':lu:'' @ (case luFile h of Some target \<Rightarrow> target | None \<Rightarrow> [])
      else name h @ '':'' @ getTypeCode (ftype h))"

definition fileContent :: "string list list \<Rightarrow> fieldDef list option \<Rightarrow> string" where
  "fileContent rows headers =
     (let headerLines = (case headers of
                           None \<Rightarrow> []
                         | Some hs \<Rightarrow> [join_str '','' (map headerField hs)]);
          csvRows = map (\<lambda>row. join_str '','' (map csvField row)) rows
      in join_str [CHR 0x0A] (headerLines @ csvRows))"

definition writeFile ::
  "textFileProvider \<Rightarrow> filesystem \<Rightarrow> string \<Rightarrow> string list list \<Rightarrow> fieldDef list option
     \<Rightarrow> (error + unit) \<times> filesystem" where
  "writeFile p fs tableName rows headers =
     (case fs_writeFile fs (getFilePath p tableName) (fileContent rows headers) of
        (Inl e, fs') \<Rightarrow> (Inl (Error (''Failed to write file: '' @ message e)), fs')
      | (Inr u, fs') \<Rightarrow> (Inr (), fs'))"

text \<open>
  The lines \<open>readFile\<close> keeps, \<open>content.split('\n').filter(line => line.trim())\<close>, and
  its test for a header line, \<open>firstLine.some(field => field.includes(':'))\<close>.
\<close>

definition nonBlankLines :: "string \<Rightarrow> string list" where
  "nonBlankLines content = filter (\<lambda>line. trim line \<noteq> []) (split_str (CHR 0x0A) content)"

definition hasHeader :: "string list \<Rightarrow> bool" where
  "hasHeader firstLine = (\<exists>field \<in> set firstLine. CHR '':'' \<in> set field)"

definition readFile ::
  "textFileProvider \<Rightarrow> filesystem \<Rightarrow> string
     \<Rightarrow> (error + fieldDef list option \<times> string list list) \<times> filesystem" where
  "readFile p fs tableName =
     (case fs_readFile fs (getFilePath p tableName) of
        Inl e \<Rightarrow> (if code e = Some ''ENOENT'' then (Inr (None, []), fs) else (Inl e, fs))
      | Inr content \<Rightarrow>
          let lines = nonBlankLines content in
          if length lines = 0 then (Inr (None, []), fs)
          else
            let firstLine = parseCSVLine (hd lines);
                headers = (if hasHeader firstLine
                           then Some (map (parseHeaderField p tableName) firstLine)
                           else None);
                startIndex = (if hasHeader firstLine then 1 else 0)
            in (case readRows (drop startIndex lines) 1 False [] of
                  (rs, needsUpdate) \<Rightarrow>
                    if needsUpdate
                    then (case writeFile p fs tableName rs headers of
                            (Inl e, fs') \<Rightarrow> (Inl e, fs')
                          | (Inr u, fs') \<Rightarrow> (Inr (headers, rs), fs'))
                    else (Inr (headers, rs), fs)))"

definition formatTitle :: "string \<Rightarrow> string" where
  "formatTitle tableName =
     (let spaced = concat (map (\<lambda>c. if isUpperAZ c then [CHR '' '', c] else [c]) tableName);
          unders = map (\<lambda>c. if c = CHR ''_'' then CHR '' '' else c) spaced;
          ws = split_str CHR '' '' (trim unders)
      in join_str '' '' (map (\<lambda>w. toUpperCase (take 1 w) @ toLowerCase (drop 1 w)) ws))"

text \<open>
  The descriptors made up for a file with no header line,
  \<open>rows[0].map((_, idx) => ({name: idx === 0 ? 'id' : `Column${idx}`, type: 'text',
  readonly: idx === 0}))\<close>, and the single descriptor of an empty table.
\<close>

definition inferredFields :: "string list \<Rightarrow> fieldDef list" where
  "inferredFields row =
     map (\<lambda>idx. \<lparr>name = (if idx = 0 then ''id'' else ''Column'' @ String_of (int idx)),
                 ftype = ''text'', luFile = None, readonly = Some (idx = 0)\<rparr>)
       [0 ..< length row]"

definition defaultFields :: "fieldDef list" where
  "defaultFields = [\<lparr>name = ''id'', ftype = ''integer'', luFile = None, readonly = Some True\<rparr>]"

record 'c tableData =
  object :: string
  title :: string
  headings :: "fieldDef list"
  rows :: "'c list list"

definition getTableData ::
  "textFileProvider \<Rightarrow> filesystem \<Rightarrow> string \<Rightarrow> (error + string tableData) \<times> filesystem" where
  "getTableData p fs tableName =
     (case readFile p fs tableName of
        (Inl e, fs') \<Rightarrow> (Inl (Error (''Failed to fetch data: '' @ message e)), fs')
      | (Inr (headers, rs), fs') \<Rightarrow>
          let flds = (case headers of
                        Some hs \<Rightarrow> map (\<lambda>h. h\<lparr>readonly := Some (toLowerCase (name h) = ''id'')\<rparr>) hs
                      | None \<Rightarrow> (if length rs > 0 then inferredFields (hd rs) else defaultFields))
          in (Inr \<lparr>object = tableName, title = formatTitle tableName, headings = flds, rows = rs\<rparr>,
              fs'))"

text \<open>\<open>r[0]\<close> of a row; \<open>parseInt(undefined)\<close> is \<open>NaN\<close>.\<close>

definition rowId :: "string list \<Rightarrow> int option" where
  "rowId r = (case elem_at r 0 of None \<Rightarrow> None | Some f \<Rightarrow> parseInt f)"

text \<open>The \<open>rows.forEach\<close> of \<open>insertRow\<close>, starting from \<open>maxId = 0\<close>.\<close>

definition maxIdStep :: "int \<Rightarrow> string list \<Rightarrow> int" where
  "maxIdStep maxId r = (case rowId r of Some i \<Rightarrow> (if i > maxId then i else maxId) | None \<Rightarrow> maxId)"

definition maxIdOf :: "string list list \<Rightarrow> int" where
  "maxIdOf rs = foldl maxIdStep 0 rs"

text \<open>\<open>rowData[field.name] || ''\<close> for a payload of strings.\<close>

definition payloadValue :: "(string \<Rightarrow> string option) \<Rightarrow> string \<Rightarrow> string" where
  "payloadValue rowData n = (case rowData n of None \<Rightarrow> [] | Some v \<Rightarrow> or_str v [])"

definition insertRow ::
  "textFileProvider \<Rightarrow> filesystem \<Rightarrow> string \<Rightarrow> (string \<Rightarrow> string option)
     \<Rightarrow> (error + unit) \<times> filesystem" where
  "insertRow p fs tableName rowData =
     (case readFile p fs tableName of
        (Inl e, fs') \<Rightarrow> (Inl (Error (''Failed to insert row: '' @ message e)), fs')
      | (Inr (headers, rs), fs') \<Rightarrow>
          let flds = (case headers of
                        Some hs \<Rightarrow> hs
                      | None \<Rightarrow> (if length rs > 0 then inferredFields (hd rs) else defaultFields));
              newId = maxIdOf rs + 1;
              newRow = map (\<lambda>field. if toLowerCase (name field) = ''id'' then String_of newId
                                     else payloadValue rowData (name field)) flds
          in (case writeFile p fs' tableName (rs @ [newRow]) headers of
                (Inl e, fs'') \<Rightarrow> (Inl (Error (''Failed to insert row: '' @ message e)), fs'')
              | (Inr u, fs'') \<Rightarrow> (Inr (), fs'')))"

text \<open>\<open>rows.findIndex(pred)\<close>; \<open>None\<close> is \<open>-1\<close>.\<close>

fun findIndex :: "('a \<Rightarrow> bool) \<Rightarrow> 'a list \<Rightarrow> nat option" where
  "findIndex P [] = None"
| "findIndex P (x # xs) = (if P x then Some 0 else map_option Suc (findIndex P xs))"

text \<open>\<open>rows[rowIndex][idx]\<close>; an index beyond the row gives \<open>undefined\<close>, written as the empty string.\<close>

definition cell :: "string list \<Rightarrow> nat \<Rightarrow> string" where
  "cell r idx = (case elem_at r idx of Some v \<Rightarrow> v | None \<Rightarrow> [])"

definition updateRow ::
  "textFileProvider \<Rightarrow> filesystem \<Rightarrow> string \<Rightarrow> string \<Rightarrow> (string \<Rightarrow> string option)
     \<Rightarrow> (error + unit) \<times> filesystem" where
  "updateRow p fs tableName rid rowData =
     (case readFile p fs tableName of
        (Inl e, fs') \<Rightarrow> (Inl (Error (''Failed to update row: '' @ message e)), fs')
      | (Inr (headers, rs), fs') \<Rightarrow>
          (case findIndex (\<lambda>r. elem_at r 0 = Some rid) rs of
             None \<Rightarrow> (Inl (Error (''Failed to update row: '' @ ''Row not found'')), fs')
           | Some rowIndex \<Rightarrow>
               let flds = (case headers of Some hs \<Rightarrow> hs | None \<Rightarrow> inferredFields (hd rs));
                   old = rs ! rowIndex;
                   updated = map (\<lambda>(field, idx). if readonly field = Some True then cell old idx
                                                  else payloadValue rowData (name field))
                               (zip flds [0 ..< length flds])
               in (case writeFile p fs' tableName (rs[rowIndex := updated]) headers of
                     (Inl e, fs'') \<Rightarrow> (Inl (Error (''Failed to update row: '' @ message e)), fs'')
                   | (Inr u, fs'') \<Rightarrow> (Inr (), fs''))))"

definition deleteRow ::
  "textFileProvider \<Rightarrow> filesystem \<Rightarrow> string \<Rightarrow> string \<Rightarrow> (error + unit) \<times> filesystem" where
  "deleteRow p fs tableName rid =
     (case readFile p fs tableName of
        (Inl e, fs') \<Rightarrow> (Inl (Error (''Failed to delete row: '' @ message e)), fs')
      | (Inr (headers, rs), fs') \<Rightarrow>
          let filteredRows = filter (\<lambda>r. elem_at r 0 \<noteq> Some rid) rs in
          if length rs = length filteredRows
          then (Inl (Error (''Failed to delete row: '' @ ''Row not found'')), fs')
          else (case writeFile p fs' tableName filteredRows headers of
                  (Inl e, fs'') \<Rightarrow> (Inl (Error (''Failed to delete row: '' @ message e)), fs'')
                | (Inr u, fs'') \<Rightarrow> (Inr (), fs'')))"

section \<open>The source registry (dataProviders/index.js)\<close>

text \<open>
  \<open>MultiSourceManager\<close> keeps a map from source id to provider and routes each call by
  source id. A provider is the pair of operations the import pipeline uses, over the state
  \<open>'s\<close> of the backends (the file system for the file-backed provider).
\<close>

record ('s, 'c) dataProvider =
  provider_getTableData :: "string \<Rightarrow> 's \<Rightarrow> (error + 'c tableData) \<times> 's"
  provider_insertRow :: "string \<Rightarrow> (string \<Rightarrow> string option) \<Rightarrow> 's \<Rightarrow> (error + unit) \<times> 's"


definition getProvider :: "(string \<Rightarrow> 'p option) \<Rightarrow> string \<Rightarrow> error + 'p" where
  "getProvider providers sourceId =
     (case providers sourceId of
        None \<Rightarrow> Inl (Error (''Data source not found: '' @ sourceId))
      | Some provider \<Rightarrow> Inr provider)"

definition manager_getTableData ::
  "(string \<Rightarrow> ('s, 'c) dataProvider option) \<Rightarrow> string \<Rightarrow> string \<Rightarrow> 's
     \<Rightarrow> (error + 'c tableData) \<times> 's" where
  "manager_getTableData providers sourceId tableName s =
     (case getProvider providers sourceId of
        Inl e \<Rightarrow> (Inl e, s)
      | Inr provider \<Rightarrow> provider_getTableData provider tableName s)"

definition manager_insertRow ::
  "(string \<Rightarrow> ('s, 'c) dataProvider option) \<Rightarrow> string \<Rightarrow> string \<Rightarrow> (string \<Rightarrow> string option)
     \<Rightarrow> 's \<Rightarrow> (error + unit) \<times> 's" where
  "manager_insertRow providers sourceId tableName rowData s =
     (case getProvider providers sourceId of
        Inl e \<Rightarrow> (Inl e, s)
      | Inr provider \<Rightarrow> provider_insertRow provider tableName rowData s)"

section \<open>The import pipeline (server.js, \<open>POST /import-csv\<close>)\<close>

text \<open>
  The request after the \<open>requireAuth\<close> and upload middleware: the \<open>object\<close> and
  \<open>source\<close> fields of the body (empty when missing) and the uploaded file, given as what
  \<open>csv-parser\<close> makes of it: an error of the stream, or one object per data line, each a
  list of (column, value) pairs in the order of \<open>Object.keys\<close>.
\<close>

type_synonym csvRow = "(string \<times> string) list"

record importRequest =
  req_object :: string
  req_source :: string
  req_file :: "(error + csvRow list) option"

record rowError =
  row :: nat
  row_message :: string

record importSummary =
  imported :: nat
  total :: nat
  errors :: "rowError list option"

datatype response =
    Status400 string "string list option"
  | Status500 string
  | Status200 importSummary

text \<open>The insert loop, with its index \<open>i\<close>, \<open>successCount\<close> and \<open>errors\<close>.\<close>

fun import_loop ::
  "((string \<Rightarrow> string option) \<Rightarrow> 's \<Rightarrow> (error + unit) \<times> 's) \<Rightarrow> csvRow list \<Rightarrow> nat \<Rightarrow> nat
     \<Rightarrow> rowError list \<Rightarrow> 's \<Rightarrow> (nat \<times> rowError list) \<times> 's" where
  "import_loop ins [] i successCount errs s = ((successCount, errs), s)"
| "import_loop ins (r # rest) i successCount errs s =
     (case ins (map_of r) s of
        (Inr u, s') \<Rightarrow> import_loop ins rest (i + 1) (successCount + 1) errs s'
      | (Inl e, s') \<Rightarrow>
          import_loop ins rest (i + 1) successCount
            (errs @ [\<lparr>row = i + 1, row_message = message e\<rparr>]) s')"

definition import_csv ::
  "(string \<Rightarrow> ('s, 'c) dataProvider option) \<Rightarrow> importRequest \<Rightarrow> 's \<Rightarrow> response \<times> 's" where
  "import_csv providers req s =
     (if req_object req = [] then (Status400 ''Object name required'' None, s)
      else if req_source req = [] then (Status400 ''Source required'' None, s)
      else case req_file req of
        None \<Rightarrow> (Status400 ''No file uploaded'' None, s)
      | Some (Inl e) \<Rightarrow> (Status500 (message e), s)
      | Some (Inr results) \<Rightarrow>
          if length results = 0 then (Status400 ''CSV file is empty'' None, s)
          else
            (case manager_getTableData providers (req_source req) (req_object req) s of
               (Inl e, s1) \<Rightarrow> (Status500 (message e), s1)
             | (Inr tableData, s1) \<Rightarrow>
                 let validColumns = map name (headings tableData);
                     csvColumns = map fst (hd results);
                     invalidColumns = filter (\<lambda>col. col \<notin> set validColumns) csvColumns
                 in if length invalidColumns > 0
                    then (Status400 (''Invalid columns in CSV: '' @ join_str '', '' invalidColumns)
                            (Some validColumns), s1)
                    else
                      (case import_loop
                              (manager_insertRow providers (req_source req) (req_object req))
                              results 0 0 [] s1 of
                         ((successCount, errs), s2) \<Rightarrow>
                           (Status200 \<lparr>imported = successCount, total = length results,
                                       errors = (if length errs > 0 then Some errs else None)\<rparr>,
                            s2))))"

subsection \<open>The insert loop as the specification words it\<close>

text \<open>
  One attempt per parsed row, in order, each in the state the earlier attempts left, none
  skipped after a failure; then the report: the number of successes, the number of rows,
  and the failures as (1-based row index, message), absent when there is none.
\<close>

fun spec_attempts ::
  "((string \<Rightarrow> string option) \<Rightarrow> 's \<Rightarrow> (error + unit) \<times> 's) \<Rightarrow> csvRow list \<Rightarrow> 's
     \<Rightarrow> (error + unit) list \<times> 's" where
  "spec_attempts ins [] s = ([], s)"
| "spec_attempts ins (r # rest) s =
     (case ins (map_of r) s of
        (outcome, s') \<Rightarrow> (case spec_attempts ins rest s' of (outcomes, s'') \<Rightarrow> (outcome # outcomes, s'')))"

definition succeeded :: "error + unit \<Rightarrow> bool" where
  "succeeded outcome = (case outcome of Inl e \<Rightarrow> False | Inr u \<Rightarrow> True)"

definition failure_at :: "nat \<Rightarrow> error + unit \<Rightarrow> rowError list" where
  "failure_at k outcome =
     (case outcome of
        Inl e \<Rightarrow> [\<lparr>row = k + 1, row_message = message e\<rparr>]
      | Inr u \<Rightarrow> [])"

definition spec_failures :: "(error + unit) list \<Rightarrow> rowError list" where
  "spec_failures outcomes =
     concat (map (\<lambda>(k, outcome). failure_at k outcome) (zip [0 ..< length outcomes] outcomes))"

definition spec_summary :: "(error + unit) list \<Rightarrow> importSummary" where
  "spec_summary outcomes =
     \<lparr>imported = length (filter succeeded outcomes), total = length outcomes,
      errors = (if list_all succeeded outcomes then None else Some (spec_failures outcomes))\<rparr>"

section \<open>The remote-relational provider (supabaseProvider.js)\<close>

text \<open>
  A value of a remote record. A number is a rational (every finite double is one); \<open>JObject\<close>
  stands for any other value. A record is the list of its (column, value) entries in the
  order of \<open>Object.entries\<close>; \<open>record[name]\<close> of a missing column is \<open>undefined\<close>.
\<close>

datatype jsval = JUndefined | JNull | JNumber rat | JBool bool | JStr string | JObject

type_synonym sbRecord = "(string \<times> jsval) list"

definition column :: "sbRecord \<Rightarrow> string \<Rightarrow> jsval" where
  "column r n = (case map_of r n of None \<Rightarrow> JUndefined | Some v \<Rightarrow> v)"

text \<open>
  What a call of the Supabase client answers: \<open>{data, error}\<close> (each possibly null, the
  error given by its message), or a rejected promise.
\<close>

datatype 'a reply = Reply "'a option" "string option" | Rejects string

record fkRow =
  column_name :: string
  foreign_table_name :: string
  foreign_column_name :: string

record foreignKey =
  referencedTable :: string
  referencedColumn :: string

text \<open>
  The remote service, as the queries the provider sends to a database state \<open>'db\<close>:
  \<open>rpc('get_foreign_keys', {table_name})\<close>, \<open>rpc('get_public_tables')\<close> (the
  \<open>table_name\<close> of each row), \<open>from(t).select('*').limit(1)\<close>,
  \<open>from(t).select('*').order('id', {ascending: true})\<close> and
  \<open>from(t).update(updates).eq('id', id)\<close>.
\<close>

record 'db supabaseClient =
  rpc_get_foreign_keys :: "string \<Rightarrow> 'db \<Rightarrow> fkRow list reply"
  rpc_get_public_tables :: "'db \<Rightarrow> string list reply"
  select_limit_1 :: "string \<Rightarrow> 'db \<Rightarrow> sbRecord list reply"
  select_order_id_ascending :: "string \<Rightarrow> 'db \<Rightarrow> sbRecord list reply"
  update_eq_id :: "string \<Rightarrow> sbRecord \<Rightarrow> string \<Rightarrow> 'db \<Rightarrow> unit reply \<times> 'db"

record tableMetadata =
  meta_title :: string
  meta_tableName :: string
  meta_fields :: "fieldDef list"

text \<open>
  The provider: its client, its manual lookup configuration, and its three caches.
  \<open>Date.parse\<close> of the runtime is a parameter: \<open>dateParses s\<close> holds when
  \<open>Date.parse(s)\<close> is a number. So is the configuration module that
  \<open>discoverTablesFromConfig\<close> reads: \<open>configTables\<close> is the table list of
  \<open>config.getSupabaseConfig()\<close>, and \<open>None\<close> when the module has no such method, as
  is the case for the repository's \<open>config.js\<close>.
\<close>

record 'db supabaseProvider =
  supabase :: "'db supabaseClient"
  sb_lookupConfig :: "string \<Rightarrow> (string \<Rightarrow> string option) option"
  dateParses :: "string \<Rightarrow> bool"
  configTables :: "string list option"
  metadataCache :: "(string \<Rightarrow> tableMetadata option) option"
  schemaCache :: "string \<Rightarrow> fieldDef list option"
  foreignKeyCache :: "string \<Rightarrow> (string \<Rightarrow> foreignKey option) option"

text \<open>\<open>s.includes(sub)\<close>.\<close>

definition includes_str :: "string \<Rightarrow> string \<Rightarrow> bool" where
  "includes_str s sub = list_ex (\<lambda>k. take (length sub) (drop k s) = sub) [0 ..< Suc (length s)]"

definition isDigit :: "char \<Rightarrow> bool" where
  "isDigit c = (c \<in> set ''0123456789'')"

text \<open>\<open>value.match(/^\d{4}-\d{2}-\d{2}/)\<close>.\<close>

definition isoDatePrefix :: "string \<Rightarrow> bool" where
  "isoDatePrefix s =
     (length s \<ge> 10 \<and> list_all isDigit (take 4 s) \<and> s ! 4 = CHR ''-''
      \<and> list_all isDigit (take 2 (drop 5 s)) \<and> s ! 7 = CHR ''-''
      \<and> list_all isDigit (take 2 (drop 8 s)))"

definition Number_isInteger :: "rat \<Rightarrow> bool" where
  "Number_isInteger r = (of_int \<lfloor>r\<rfloor> = r)"

definition inferType :: "(string \<Rightarrow> bool) \<Rightarrow> jsval \<Rightarrow> string \<Rightarrow> string" where
  "inferType dateOk v columnName =
     (if v = JNull \<or> v = JUndefined then ''text''
      else let colLower = toLowerCase columnName in
        if includes_str colLower ''date'' \<or> includes_str colLower ''_at'' then ''date''
        else (case v of
                JNumber r \<Rightarrow> (if Number_isInteger r then ''integer'' else ''number'')
              | JBool b \<Rightarrow> ''boolean''
              | JStr s \<Rightarrow> (if dateOk s \<and> isoDatePrefix s then ''date'' else ''text'')
              | _ \<Rightarrow> ''text''))"

definition discoverForeignKeys ::
  "'db supabaseProvider \<Rightarrow> 'db \<Rightarrow> string \<Rightarrow> (string \<Rightarrow> foreignKey option) \<times> 'db supabaseProvider" where
  "discoverForeignKeys p db tableName =
     (case foreignKeyCache p tableName of
        Some cached \<Rightarrow> (cached, p)
      | None \<Rightarrow>
          (case rpc_get_foreign_keys (supabase p) tableName db of
             Rejects m \<Rightarrow> (Map.empty, p)
           | Reply dat (Some err) \<Rightarrow> (Map.empty, p)
           | Reply dat None \<Rightarrow>
               let foreignKeys =
                     (case dat of
                        None \<Rightarrow> Map.empty
                      | Some fks \<Rightarrow>
                          foldl (\<lambda>m fk. m(column_name fk \<mapsto>
                                            \<lparr>referencedTable = foreign_table_name fk,
                                             referencedColumn = foreign_column_name fk\<rparr>))
                            Map.empty fks)
               in (foreignKeys, p\<lparr>foreignKeyCache := (foreignKeyCache p)(tableName \<mapsto> foreignKeys)\<rparr>)))"

text \<open>
  The body of the loop over \<open>Object.entries(sampleRow)\<close> in \<open>discoverTableSchema\<close>, for a
  column that is not skipped: the descriptor pushed for it.
\<close>

definition columnField ::
  "'db supabaseProvider \<Rightarrow> (string \<Rightarrow> foreignKey option) \<Rightarrow> string \<Rightarrow> string \<Rightarrow> jsval \<Rightarrow> fieldDef" where
  "columnField p foreignKeys tableName columnName v =
     (let field = \<lparr>name = columnName, ftype = inferType (dateParses p) v columnName,
                   luFile = None, readonly = Some (columnName = ''id'')\<rparr>
      in case foreignKeys columnName of
           Some fk \<Rightarrow> field\<lparr>ftype := ''lu'', luFile := Some (referencedTable fk)\<rparr>
         | None \<Rightarrow>
             (case sb_lookupConfig p tableName of
                None \<Rightarrow> field
              | Some cols \<Rightarrow>
                  (if truthy (cols columnName)
                   then field\<lparr>ftype := ''lu'', luFile := cols columnName\<rparr>
                   else field)))"

text \<open>
  \<open>fields.sort\<close> with the comparator that puts \<open>id\<close> first and ties everything else: the
  sort is stable and a record has each column once, so \<open>id\<close> moves to the front and the
  other descriptors keep their order.
\<close>

definition sortIdFirst :: "fieldDef list \<Rightarrow> fieldDef list" where
  "sortIdFirst flds = filter (\<lambda>f. name f = ''id'') flds @ filter (\<lambda>f. name f \<noteq> ''id'') flds"

definition discoverTableSchema ::
  "'db supabaseProvider \<Rightarrow> 'db \<Rightarrow> string \<Rightarrow> fieldDef list \<times> 'db supabaseProvider" where
  "discoverTableSchema p db tableName =
     (case schemaCache p tableName of
        Some cached \<Rightarrow> (cached, p)
      | None \<Rightarrow>
          (case discoverForeignKeys p db tableName of
             (foreignKeys, p1) \<Rightarrow>
               (case select_limit_1 (supabase p1) tableName db of
                  Rejects m \<Rightarrow> (defaultFields, p1)
                | Reply dat (Some err) \<Rightarrow> (defaultFields, p1)
                | Reply None None \<Rightarrow> (defaultFields, p1)
                | Reply (Some []) None \<Rightarrow> (defaultFields, p1)
                | Reply (Some (sampleRow # others)) None \<Rightarrow>
                    let kept = filter (\<lambda>(columnName, v). \<not> (columnName = ''created_at''
                                                            \<or> columnName = ''updated_at'')) sampleRow;
                        flds = sortIdFirst
                                 (map (\<lambda>(columnName, v). columnField p1 foreignKeys tableName columnName v)
                                    kept)
                    in (flds, p1\<lparr>schemaCache := (schemaCache p1)(tableName \<mapsto> flds)\<rparr>))))"

text \<open>The loops over the table names in \<open>discoverTables\<close> and \<open>discoverTablesFromConfig\<close>.\<close>

fun discoverEach ::
  "'db supabaseProvider \<Rightarrow> 'db \<Rightarrow> string list \<Rightarrow> (string \<Rightarrow> tableMetadata option)
     \<Rightarrow> (string \<Rightarrow> tableMetadata option) \<times> 'db supabaseProvider" where
  "discoverEach p db [] tables = (tables, p)"
| "discoverEach p db (tableName # rest) tables =
     (case discoverTableSchema p db tableName of
        (flds, p1) \<Rightarrow>
          discoverEach p1 db rest
            (tables(tableName \<mapsto> \<lparr>meta_title = formatTitle tableName, meta_tableName = tableName,
                                   meta_fields = flds\<rparr>)))"

text \<open>
  \<open>discoverTablesFromConfig\<close> starts with \<open>config.getSupabaseConfig()\<close>; where the
  configuration module has no such method the call throws a \<open>TypeError\<close>.
\<close>

definition discoverTablesFromConfig ::
  "'db supabaseProvider \<Rightarrow> 'db
     \<Rightarrow> (error + (string \<Rightarrow> tableMetadata option)) \<times> 'db supabaseProvider" where
  "discoverTablesFromConfig p db =
     (case configTables p of
        None \<Rightarrow> (Inl (Error ''config.getSupabaseConfig is not a function''), p)
      | Some tableList \<Rightarrow>
          if length tableList = 0 then (Inr Map.empty, p)
          else (case discoverEach p db tableList Map.empty of
                  (tables, p1) \<Rightarrow> (Inr tables, p1\<lparr>metadataCache := Some tables\<rparr>)))"

text \<open>
  In \<open>discoverTables\<close> the fallback is called inside the \<open>try\<close>; when it throws, the
  \<open>catch\<close> calls it again, with the same outcome.
\<close>

definition discoverTables ::
  "'db supabaseProvider \<Rightarrow> 'db \<Rightarrow> (error + (string \<Rightarrow> tableMetadata option)) \<times> 'db supabaseProvider" where
  "discoverTables p db =
     (case metadataCache p of
        Some cached \<Rightarrow> (Inr cached, p)
      | None \<Rightarrow>
          (case rpc_get_public_tables (supabase p) db of
             Rejects m \<Rightarrow> discoverTablesFromConfig p db
           | Reply dat (Some err) \<Rightarrow> discoverTablesFromConfig p db
           | Reply None None \<Rightarrow> discoverTablesFromConfig p db
           | Reply (Some []) None \<Rightarrow> discoverTablesFromConfig p db
           | Reply (Some (t # ts)) None \<Rightarrow>
               (case discoverEach p db (t # ts) Map.empty of
                  (tables, p1) \<Rightarrow> (Inr tables, p1\<lparr>metadataCache := Some tables\<rparr>))))"

definition getTableMetadata ::
  "'db supabaseProvider \<Rightarrow> 'db \<Rightarrow> string \<Rightarrow> (error + tableMetadata option) \<times> 'db supabaseProvider" where
  "getTableMetadata p db tableName =
     (case discoverTables p db of
        (Inl e, p1) \<Rightarrow> (Inl e, p1)
      | (Inr allMetadata, p1) \<Rightarrow> (Inr (allMetadata tableName), p1))"

definition sb_getTableData ::
  "'db supabaseProvider \<Rightarrow> 'db \<Rightarrow> string \<Rightarrow> (error + jsval tableData) \<times> 'db supabaseProvider" where
  "sb_getTableData p db tableName =
     (case getTableMetadata p db tableName of
        (Inl e, p1) \<Rightarrow> (Inl (Error (''Failed to fetch data: '' @ message e)), p1)
      | (Inr None, p1) \<Rightarrow> (Inl (Error (''Failed to fetch data: '' @ ''Table not found'')), p1)
      | (Inr (Some metadata), p1) \<Rightarrow>
          (case select_order_id_ascending (supabase p1) tableName db of
             Rejects m \<Rightarrow> (Inl (Error (''Failed to fetch data: '' @ m)), p1)
           | Reply dat (Some err) \<Rightarrow> (Inl (Error (''Failed to fetch data: '' @ err)), p1)
           | Reply None None \<Rightarrow>
               (Inl (Error (''Failed to fetch data: ''
                            @ ''Cannot read properties of null (reading '' @ [CHR 0x27] @ ''map''
                            @ [CHR 0x27] @ '')'')), p1)
           | Reply (Some records) None \<Rightarrow>
               (Inr \<lparr>object = tableName, title = meta_title metadata,
                     headings = meta_fields metadata,
                     rows = map (\<lambda>r. map (\<lambda>f. column r (name f)) (meta_fields metadata)) records\<rparr>,
                p1)))"

text \<open>
  The \<open>updates\<close> object that \<open>updateRow\<close> builds from the payload: one entry per field that
  is neither readonly nor named \<open>id\<close>.
\<close>

definition sb_updates :: "fieldDef list \<Rightarrow> (string \<Rightarrow> jsval option) \<Rightarrow> sbRecord" where
  "sb_updates flds rowData =
     map (\<lambda>field. (name field, (case rowData (name field) of None \<Rightarrow> JUndefined | Some v \<Rightarrow> v)))
       (filter (\<lambda>field. \<not> (readonly field = Some True) \<and> name field \<noteq> ''id'') flds)"

definition sb_updateRow ::
  "'db supabaseProvider \<Rightarrow> 'db \<Rightarrow> string \<Rightarrow> string \<Rightarrow> (string \<Rightarrow> jsval option)
     \<Rightarrow> (error + unit) \<times> 'db supabaseProvider \<times> 'db" where
  "sb_updateRow p db tableName rid rowData =
     (case getTableMetadata p db tableName of
        (Inl e, p1) \<Rightarrow> (Inl (Error (''Failed to update row: '' @ message e)), p1, db)
      | (Inr None, p1) \<Rightarrow> (Inl (Error (''Failed to update row: '' @ ''Table not found'')), p1, db)
      | (Inr (Some metadata), p1) \<Rightarrow>
          (case update_eq_id (supabase p1) tableName (sb_updates (meta_fields metadata) rowData) rid db of
             (Rejects m, db') \<Rightarrow> (Inl (Error (''Failed to update row: '' @ m)), p1, db')
           | (Reply dat (Some err), db') \<Rightarrow> (Inl (Error (''Failed to update row: '' @ err)), p1, db')
           | (Reply dat None, db') \<Rightarrow> (Inr (), p1, db')))"

section \<open>Auxiliary notions for stating the properties\<close>

text \<open>
  The data lines of a file: its non-blank lines after the header line, if it has one.
\<close>

definition dataLines :: "string \<Rightarrow> string list" where
  "dataLines content =
     (let ls = nonBlankLines content
      in if ls = [] then []
         else drop (if hasHeader (parseCSVLine (hd ls)) then 1 else 0) ls)"

text \<open>
  The numeric ids of a table's rows, and the id the specification gives the next row: one
  plus the largest of them, or 1 when there is none.
\<close>

definition existingIds :: "string list list \<Rightarrow> int list" where
  "existingIds rs = concat (map (\<lambda>r. case rowId r of Some i \<Rightarrow> [i] | None \<Rightarrow> []) rs)"

definition spec_nextId :: "string list list \<Rightarrow> int" where
  "spec_nextId rs = (if existingIds rs = [] then 1 else 1 + Max (set (existingIds rs)))"

text \<open>Rows in ascending order of their numeric ids.\<close>

definition ascendingById :: "string list list \<Rightarrow> bool" where
  "ascendingById rs = sorted (existingIds rs)"

text \<open>The numeric ids at the head of a file's data lines, in file order.\<close>

definition lineIds :: "string \<Rightarrow> int list" where
  "lineIds content =
     concat (map (\<lambda>line. case leadingId (parseCSVLine line) of Some i \<Rightarrow> [i] | None \<Rightarrow> [])
               (dataLines content))"

text \<open>
  The object that \<open>csv-parser\<close>, in the default mode in which the import pipeline calls
  it, builds for a data line: one key per cell, the header at the cell's position, or
  \<open>_\<close> and the position for a cell beyond the header. A line with fewer cells than
  the header has fewer keys.
\<close>

definition writeRow :: "string list \<Rightarrow> string list \<Rightarrow> csvRow" where
  "writeRow headers cells =
     map (\<lambda>(index, c). ((case elem_at headers index of
                               Some header \<Rightarrow> header
                             | None \<Rightarrow> ''_'' @ String_of (int index)), c))
       (zip [0 ..< length cells] cells)"

section \<open>Example sources\<close>

text \<open>
  A file-backed provider over the directory \<open>./data\<close> with no manual lookups, and the file
  system that holds one table file and nothing else.
\<close>

definition demo :: textFileProvider where
  "demo = \<lparr>dataDirectory = ''./data'', authRequired = False, lookupConfig = (\<lambda>tableName. None)\<rparr>"

definition no_files :: filesystem where
  "no_files = (\<lambda>path. Absent)"

definition table_file :: "textFileProvider \<Rightarrow> string \<Rightarrow> string \<Rightarrow> filesystem" where
  "table_file p tableName content = no_files(getFilePath p tableName := File content)"

text \<open>
  A remote service with one table \<open>cities\<close> whose column \<open>country_id\<close> has a foreign key
  to \<open>countries\<close>, and a provider for it whose manual configuration maps the same column
  to \<open>regions\<close>.
\<close>

definition demo_client :: "unit supabaseClient" where
  "demo_client =
     \<lparr>rpc_get_foreign_keys =
        (\<lambda>tableName db. Reply (Some [\<lparr>column_name = ''country_id'',
                                         foreign_table_name = ''countries'',
                                         foreign_column_name = ''id''\<rparr>]) None),
      rpc_get_public_tables = (\<lambda>db. Reply (Some [''cities'']) None),
      select_limit_1 =
        (\<lambda>tableName db. Reply (Some [ [(''id'', JNumber 1), (''name'', JStr ''Paris''),
                                          (''country_id'', JNumber 3)] ]) None),
      select_order_id_ascending =
        (\<lambda>tableName db. Reply (Some [ [(''id'', JNumber 1), (''name'', JStr ''Paris''),
                                          (''country_id'', JNumber 3)],
                                        [(''id'', JNumber 2), (''name'', JStr ''Lyon''),
                                          (''country_id'', JNumber 3)] ]) None),
      update_eq_id = (\<lambda>tableName updates rid db. (Reply None None, db))\<rparr>"

definition demo_remote :: "unit supabaseProvider" where
  "demo_remote =
     \<lparr>supabase = demo_client,
      sb_lookupConfig = [''cities'' \<mapsto> [''country_id'' \<mapsto> ''regions'']],
      dateParses = (\<lambda>s. True),
      configTables = None,
      metadataCache = None,
      schemaCache = Map.empty,
      foreignKeyCache = Map.empty\<rparr>"

text \<open>
  A provider whose table has a uniqueness constraint on \<open>Name\<close>: its state is the list of
  names stored, and an insert of a name already stored fails.
\<close>

definition unique_names :: "(string list, string) dataProvider" where
  "unique_names =
     \<lparr>provider_getTableData =
        (\<lambda>tableName names.
           (Inr \<lparr>object = tableName, title = tableName,
                 headings = [\<lparr>name = ''id'', ftype = ''integer'', luFile = None, readonly = Some True\<rparr>,
                             \<lparr>name = ''Name'', ftype = ''text'', luFile = None, readonly = Some False\<rparr>],
                 rows = map (\<lambda>n. [n]) names\<rparr>, names)),
      provider_insertRow =
        (\<lambda>tableName rowData names.
           (case rowData ''Name'' of
              None \<Rightarrow> (Inl (Error ''Failed to insert row: Name is required''), names)
            | Some n \<Rightarrow>
                (if n \<in> set names
                 then (Inl (Error ''Failed to insert row: duplicate key value''), names)
                 else (Inr (), names @ [n]))))\<rparr>"

text \<open>
  Table files: people with ids 1 and 7 and no header line, and countries with the fields
  \<open>id\<close>, \<open>Name\<close> and \<open>ISO2\<close>.
\<close>

definition people_file :: string where
  "people_file = ''1,Bob'' @ [CHR 0x0A] @ ''7,Al''"




definition name_sources :: "string \<Rightarrow> (string list, string) dataProvider option" where
  "name_sources = [''names'' \<mapsto> unique_names]"

definition names_request :: importRequest where
  "names_request =
     \<lparr>req_object = ''people'', req_source = ''names'',
      req_file = Some (Inr [ [(''Name'', ''Ann'')], [(''Name'', ''Ann'')], [(''Name'', ''Bea'')] ])\<rparr>"


text \<open>The order of numbers, as an order on id values.\<close>

definition numericLe :: "jsval \<Rightarrow> jsval \<Rightarrow> bool" where
  "numericLe a b = (case (a, b) of (JNumber x, JNumber y) \<Rightarrow> x \<le> y | _ \<Rightarrow> False)"

section \<open>Auxiliary lemmas\<close>

subsection \<open>Reading and writing table files\<close>

lemma writeFile_success:
  assumes "writeFile p fs t rs headers = (Inr u, fs')"
  shows "fs' = fs(getFilePath p t := File (fileContent rs headers))"
  using assms
  by (auto simp: writeFile_def fs_writeFile_def split: node.splits)

lemma readFile_success:
  assumes rd: "readFile p fs t = (Inr (headers, rs), fs1)"
  obtains (missing) e where "fs_readFile fs (getFilePath p t) = Inl e"
      and "headers = None" and "rs = []" and "fs1 = fs"
  | (present) content b where "fs_readFile fs (getFilePath p t) = Inr content"
      and "readRows (dataLines content) 1 False [] = (rs, b)"
      and "b \<Longrightarrow> fs1 = fs(getFilePath p t := File (fileContent rs headers))"
      and "\<not> b \<Longrightarrow> fs1 = fs"
proof (cases "fs_readFile fs (getFilePath p t)")
  case (Inl e)
  with rd have "headers = None" "rs = []" "fs1 = fs"
    by (auto simp: readFile_def split: if_splits)
  with Inl show ?thesis by (rule missing)
next
  case (Inr content)
  show ?thesis
  proof (cases "nonBlankLines content = []")
    case True
    with rd Inr have "rs = []" "fs1 = fs"
      by (auto simp: readFile_def)
    moreover have "readRows (dataLines content) 1 False [] = ([], False)"
      using True by (simp add: dataLines_def)
    ultimately show ?thesis using Inr present [of content False] by simp
  next
    case False
    obtain rs' b where rr: "readRows (dataLines content) 1 False [] = (rs', b)"
      by (cases "readRows (dataLines content) 1 False []")
    have dl: "dataLines content =
                drop (if hasHeader (parseCSVLine (hd (nonBlankLines content))) then 1 else 0)
                  (nonBlankLines content)"
      using False by (simp add: dataLines_def)
    show ?thesis
    proof (cases b)
      case True
      with rd Inr False rr dl have "rs = rs'"
        and "\<exists>u. writeFile p fs t rs' headers = (Inr u, fs1)"
        by (auto simp: readFile_def Let_def split: sum.splits prod.splits if_splits)
      then show ?thesis using Inr rr True present [of content b] writeFile_success by blast
    next
      case nb: False
      with rd Inr False rr dl have "rs = rs'" and "fs1 = fs"
        by (auto simp: readFile_def Let_def split: if_splits)
      then show ?thesis using Inr rr nb present [of content b] by blast
    qed
  qed
qed

lemma parseCSVLine_loop_nonempty: "parseCSVLine_loop line result current inQuotes \<noteq> []"
  by (induction line result current inQuotes rule: parseCSVLine_loop.induct) auto

lemma parseCSVLine_nonempty: "parseCSVLine line \<noteq> []"
  by (simp add: parseCSVLine_def parseCSVLine_loop_nonempty)

lemma readRows_nonempty:
  "\<forall>r \<in> set acc. r \<noteq> [] \<Longrightarrow> \<forall>r \<in> set (fst (readRows ls n b acc)). r \<noteq> []"
proof (induction ls arbitrary: n b acc)
  case Nil
  then show ?case by simp
next
  case (Cons line ls)
  show ?case
  proof (cases "leadingId (parseCSVLine line)")
    case None
    then show ?thesis
      using Cons.IH [of "acc @ [String_of n # parseCSVLine line]" "n + 1" True] Cons.prems
      by (simp add: Let_def)
  next
    case (Some i)
    then show ?thesis
      using Cons.IH [of "acc @ [parseCSVLine line]" "if i \<ge> n then i + 1 else n" b] Cons.prems
      by (simp add: Let_def parseCSVLine_nonempty)
  qed
qed

lemma readFile_rows_nonempty:
  assumes "readFile p fs t = (Inr (headers, rs), fs1)"
  shows "\<forall>r \<in> set rs. r \<noteq> []"
  using assms
proof (cases rule: readFile_success)
  case (missing e)
  then show ?thesis by simp
next
  case (present content b)
  then show ?thesis using readRows_nonempty [of "[]" "dataLines content" 1 False] by simp
qed

lemma readRows_flag:
  "\<forall>line \<in> set ls. leadingId (parseCSVLine line) \<noteq> None \<Longrightarrow> snd (readRows ls n b acc) = b"
proof (induction ls arbitrary: n b acc)
  case Nil
  then show ?case by simp
next
  case (Cons line ls)
  then obtain i where "leadingId (parseCSVLine line) = Some i" by auto
  then show ?case using Cons by (simp add: Let_def)
qed

lemma readRows_in_file_order:
  "\<exists>rs'. fst (readRows ls n b acc) = acc @ rs'
     \<and> list_all2 (\<lambda>r line. case leadingId (parseCSVLine line) of
                               Some i \<Rightarrow> r = parseCSVLine line
                             | None \<Rightarrow> r \<noteq> [] \<and> tl r = parseCSVLine line) rs' ls"
proof (induction ls arbitrary: n b acc)
  case Nil
  then show ?case by simp
next
  case (Cons line ls)
  show ?case
  proof (cases "leadingId (parseCSVLine line)")
    case None
    from Cons.IH [of "n + 1" True "acc @ [String_of n # parseCSVLine line]"]
    obtain rs' where "fst (readRows ls (n + 1) True (acc @ [String_of n # parseCSVLine line]))
                      = (acc @ [String_of n # parseCSVLine line]) @ rs'"
      and "list_all2 (\<lambda>r line. case leadingId (parseCSVLine line) of
                               Some i \<Rightarrow> r = parseCSVLine line
                             | None \<Rightarrow> r \<noteq> [] \<and> tl r = parseCSVLine line) rs' ls"
      by blast
    then show ?thesis using None
      by (intro exI [of _ "(String_of n # parseCSVLine line) # rs'"]) (simp add: Let_def)
  next
    case (Some i)
    from Cons.IH [of "if i \<ge> n then i + 1 else n" b "acc @ [parseCSVLine line]"]
    obtain rs' where "fst (readRows ls (if i \<ge> n then i + 1 else n) b (acc @ [parseCSVLine line]))
                      = (acc @ [parseCSVLine line]) @ rs'"
      and "list_all2 (\<lambda>r line. case leadingId (parseCSVLine line) of
                               Some i \<Rightarrow> r = parseCSVLine line
                             | None \<Rightarrow> r \<noteq> [] \<and> tl r = parseCSVLine line) rs' ls"
      by blast
    then show ?thesis using Some
      by (intro exI [of _ "parseCSVLine line # rs'"]) (simp add: Let_def)
  qed
qed

lemma leadingId_rowId: "leadingId cells = Some i \<Longrightarrow> rowId cells = Some i"
  by (cases cells) (auto simp: leadingId_def rowId_def elem_at_def split: if_splits)

lemma rows_of_numbered_lines:
  assumes "list_all2 (\<lambda>r line. case leadingId (parseCSVLine line) of
                               Some i \<Rightarrow> r = parseCSVLine line
                             | None \<Rightarrow> r \<noteq> [] \<and> tl r = parseCSVLine line) rs ls"
      and "\<forall>line \<in> set ls. leadingId (parseCSVLine line) \<noteq> None"
  shows "existingIds rs
         = concat (map (\<lambda>line. case leadingId (parseCSVLine line) of Some i \<Rightarrow> [i] | None \<Rightarrow> []) ls)"
  using assms
proof (induction rs ls rule: list_all2_induct)
  case Nil
  then show ?case by (simp add: existingIds_def)
next
  case (Cons r rs line ls)
  then obtain i where i: "leadingId (parseCSVLine line) = Some i" by auto
  with Cons have "r = parseCSVLine line" by simp
  with i have "rowId r = Some i" by (simp add: leadingId_rowId)
  with Cons i show ?case by (simp add: existingIds_def)
qed

lemma getTableData_rows:
  assumes "fst (getTableData p fs t) = Inr td"
  shows "\<exists>headers fs'. readFile p fs t = (Inr (headers, rows td), fs')"
  using assms
  by (auto simp: getTableData_def Let_def split: prod.splits sum.splits)

text \<open>
  A line written by \<open>writeFile\<close> reads back as the cells written, provided no cell holds a
  double quote or starts or ends with white space.
\<close>

lemma parseCSVLine_loop_plain:
  assumes "CHR 0x22 \<notin> set s" and "inQuotes \<or> CHR '','' \<notin> set s"
  shows "parseCSVLine_loop (s @ rest) result current inQuotes
         = parseCSVLine_loop rest result (current @ s) inQuotes"
  using assms
proof (induction s arbitrary: current)
  case Nil
  then show ?case by simp
next
  case (Cons c s)
  then have c: "c \<noteq> CHR 0x22" "\<not> (c = CHR '','' \<and> \<not> inQuotes)" by auto
  then have "parseCSVLine_loop ((c # s) @ rest) result current inQuotes
             = parseCSVLine_loop (s @ rest) result (current @ [c]) inQuotes"
    by (cases inQuotes) auto
  also have "\<dots> = parseCSVLine_loop rest result ((current @ [c]) @ s) inQuotes"
    using Cons.IH [of "current @ [c]"] Cons.prems by auto
  finally show ?case by simp
qed

lemma parseCSVLine_loop_csvField:
  assumes "CHR 0x22 \<notin> set f"
  shows "parseCSVLine_loop (csvField f @ rest) result [] False
         = parseCSVLine_loop rest result f False"
proof (cases "CHR '','' \<in> set f \<or> CHR 0x0A \<in> set f")
  case True
  have plain: "concat (map (\<lambda>c. if c = CHR 0x22 then [CHR 0x22, CHR 0x22] else [c]) f) = f"
    using assms by (induction f) auto
  from True assms have "csvField f = [CHR 0x22] @ f @ [CHR 0x22]"
    by (auto simp: csvField_def or_str_def Let_def plain)
  then show ?thesis
    using parseCSVLine_loop_plain [of f True "CHR 0x22 # rest" result "[]"] assms by simp
next
  case False
  with assms have "csvField f = f"
    by (auto simp: csvField_def or_str_def Let_def)
  then show ?thesis
    using parseCSVLine_loop_plain [of f False rest result "[]"] assms False by simp
qed

lemma parseCSVLine_loop_row:
  assumes "cells \<noteq> []" and "\<forall>f \<in> set cells. CHR 0x22 \<notin> set f \<and> trim f = f"
  shows "parseCSVLine_loop (join_str '','' (map csvField cells)) result [] False = result @ cells"
  using assms
proof (induction cells arbitrary: result)
  case Nil
  then show ?case by simp
next
  case (Cons f fs)
  show ?case
  proof (cases fs)
    case Nil
    then show ?thesis
      using parseCSVLine_loop_csvField [of f "[]" result] Cons.prems by simp
  next
    case (Cons g gs)
    have "parseCSVLine_loop (join_str '','' (map csvField (f # g # gs))) result [] False
          = parseCSVLine_loop (CHR '','' # join_str '','' (map csvField (g # gs))) result f False"
      using parseCSVLine_loop_csvField [of f "'','' @ join_str '','' (map csvField (g # gs))" result]
        Cons.prems by simp
    also have "\<dots> = parseCSVLine_loop (join_str '','' (map csvField (g # gs))) (result @ [f]) [] False"
      using Cons.prems by simp
    also have "\<dots> = (result @ [f]) @ (g # gs)"
      using Cons.IH [of "result @ [f]"] Cons.prems Cons by simp
    finally show ?thesis using Cons by simp
  qed
qed

lemma parseCSVLine_written_row:
  assumes "cells \<noteq> []" and "\<forall>f \<in> set cells. CHR 0x22 \<notin> set f \<and> trim f = f"
  shows "parseCSVLine (join_str '','' (map csvField cells)) = cells"
  using parseCSVLine_loop_row [OF assms, of "[]"] by (simp add: parseCSVLine_def)

subsection \<open>Updates and the readonly flag\<close>

text \<open>
  The descriptors that \<open>readFile\<close> makes of a header line carry no \<open>readonly\<close> flag, so
  under a header line \<open>updateRow\<close> takes every cell from the payload; with no header line
  the first descriptor is readonly and the updated row keeps its id.
\<close>

lemma parseHeaderField_readonly: "readonly (parseHeaderField p t field) = None"
  by (simp add: parseHeaderField_def Let_def split: option.splits)

lemma readFile_headers:
  assumes "readFile p fs t = (Inr (Some hs, rs), fs1)"
  shows "\<exists>firstLine. hs = map (parseHeaderField p t) firstLine"
proof (cases "fs_readFile fs (getFilePath p t)")
  case (Inl e)
  with assms show ?thesis by (auto simp: readFile_def split: if_splits)
next
  case (Inr content)
  show ?thesis
  proof (cases "hasHeader (parseCSVLine (hd (nonBlankLines content)))")
    case True
    with assms Inr have "hs = map (parseHeaderField p t) (parseCSVLine (hd (nonBlankLines content)))"
      by (auto simp: readFile_def Let_def split: if_splits prod.splits sum.splits)
    then show ?thesis by blast
  next
    case False
    with assms Inr show ?thesis
      by (auto simp: readFile_def Let_def split: if_splits prod.splits sum.splits)
  qed
qed

lemma updateRow_under_header:
  assumes rd: "readFile p fs t = (Inr (Some hs, rs), fs1)"
      and found: "findIndex (\<lambda>r. elem_at r 0 = Some rid) rs = Some k"
  shows "updateRow p fs t rid rowData
         = (case writeFile p fs1 t (rs[k := map (\<lambda>field. payloadValue rowData (name field)) hs]) (Some hs) of
              (Inl e, fs2) \<Rightarrow> (Inl (Error (''Failed to update row: '' @ message e)), fs2)
            | (Inr u, fs2) \<Rightarrow> (Inr (), fs2))"
proof -
  from readFile_headers [OF rd] have ro: "\<forall>h \<in> set hs. readonly h = None"
    by (auto simp: parseHeaderField_readonly)
  have "map (\<lambda>(field, idx). if readonly field = Some True then cell (rs ! k) idx
                             else payloadValue rowData (name field)) (zip hs [0 ..< length hs])
        = map (\<lambda>(field, idx). payloadValue rowData (name field)) (zip hs [0 ..< length hs])"
    using ro by (auto dest: set_zip_leftD)
  also have "\<dots> = map (\<lambda>field. payloadValue rowData (name field)) hs"
    by (rule nth_equalityI) simp_all
  finally show ?thesis
    by (simp add: updateRow_def rd found Let_def)
qed

lemma findIndex_Some:
  "findIndex P xs = Some k \<Longrightarrow> k < length xs \<and> P (xs ! k)"
proof (induction xs arbitrary: k)
  case Nil
  then show ?case by simp
next
  case (Cons x xs)
  then show ?case
    by (cases "P x") (auto simp: nth_Cons')
qed

lemma updateRow_without_header:
  assumes rd: "readFile p fs t = (Inr (None, rs), fs1)"
      and ok: "updateRow p fs t rid rowData = (Inr (), fs2)"
  shows "\<exists>k updated. findIndex (\<lambda>r. elem_at r 0 = Some rid) rs = Some k
           \<and> fs2 = fs1(getFilePath p t := File (fileContent (rs[k := updated]) None))
           \<and> elem_at updated 0 = Some rid"
proof -
  from ok rd obtain k where found: "findIndex (\<lambda>r. elem_at r 0 = Some rid) rs = Some k"
    by (cases "findIndex (\<lambda>r. elem_at r 0 = Some rid) rs") (auto simp: updateRow_def)
  then have k: "k < length rs" and rid: "elem_at (rs ! k) 0 = Some rid"
    using findIndex_Some [of "\<lambda>r. elem_at r 0 = Some rid" rs k] by simp_all
  define updated where
    "updated = map (\<lambda>(field, idx). if readonly field = Some True then cell (rs ! k) idx
                                    else payloadValue rowData (name field))
                 (zip (inferredFields (hd rs)) [0 ..< length (inferredFields (hd rs))])"
  have "updateRow p fs t rid rowData
        = (case writeFile p fs1 t (rs[k := updated]) None of
              (Inl e, fs2) \<Rightarrow> (Inl (Error (''Failed to update row: '' @ message e)), fs2)
            | (Inr u, fs2) \<Rightarrow> (Inr (), fs2))"
    by (simp add: updateRow_def rd found Let_def updated_def)
  with ok have "\<exists>u. writeFile p fs1 t (rs[k := updated]) None = (Inr u, fs2)"
    by (auto split: prod.splits sum.splits)
  then have a: "fs2 = fs1(getFilePath p t := File (fileContent (rs[k := updated]) None))"
    using writeFile_success by blast
  from k have "rs \<noteq> []" by auto
  then have "hd rs \<noteq> []" using readFile_rows_nonempty [OF rd] by simp
  then obtain c cs where "hd rs = c # cs" by (cases "hd rs") auto
  then have "\<exists>others. inferredFields (hd rs)
             = \<lparr>name = ''id'', ftype = ''text'', luFile = None, readonly = Some True\<rparr> # others"
    by (simp add: inferredFields_def upt_rec [of 0])
  then obtain others where "inferredFields (hd rs)
             = \<lparr>name = ''id'', ftype = ''text'', luFile = None, readonly = Some True\<rparr> # others"
    by blast
  then have "elem_at updated 0 = Some (cell (rs ! k) 0)"
    by (simp add: updated_def upt_rec [of 0] elem_at_def)
  with rid have b: "elem_at updated 0 = Some rid"
    by (simp add: cell_def)
  from found a b show ?thesis by blast
qed

subsection \<open>The next id\<close>

lemma foldl_maxIdStep:
  "foldl maxIdStep m rs = Max (insert m (set (existingIds rs)))"
proof (induction rs arbitrary: m)
  case Nil
  then show ?case by (simp add: existingIds_def)
next
  case (Cons r rs)
  show ?case
  proof (cases "rowId r")
    case None
    then show ?thesis using Cons.IH [of m] by (simp add: existingIds_def maxIdStep_def)
  next
    case (Some i)
    have fin: "finite (set (existingIds rs))" by simp
    have "Max (insert (max m i) (set (existingIds rs))) = Max (insert m (insert i (set (existingIds rs))))"
    proof (cases "set (existingIds rs) = {}")
      case True
      then show ?thesis by (simp add: max.commute)
    next
      case False
      then show ?thesis using fin by (simp add: max.assoc)
    qed
    moreover have "maxIdStep m r = max m i" using Some by (simp add: maxIdStep_def max_def)
    moreover have "existingIds (r # rs) = i # existingIds rs" using Some by (simp add: existingIds_def)
    ultimately show ?thesis using Cons.IH [of "max m i"] by simp
  qed
qed

lemma maxIdOf_Max: "maxIdOf rs = Max (insert 0 (set (existingIds rs)))"
  by (simp add: maxIdOf_def foldl_maxIdStep)

lemma insertRow_ignores_id_key:
  assumes "toLowerCase k = ''id''"
  shows "insertRow p fs t (rowData(k := v)) = insertRow p fs t rowData"
proof -
  have eq: "(\<lambda>field. if toLowerCase (name field) = ''id'' then String_of n
                      else payloadValue (rowData(k := v)) (name field))
           = (\<lambda>field. if toLowerCase (name field) = ''id'' then String_of n
                       else payloadValue rowData (name field))" for n
    using assms by (auto simp: payloadValue_def)
  show ?thesis
    unfolding insertRow_def Let_def eq by (rule refl)
qed

text \<open>An insert succeeds whenever the table file is missing or an ordinary file.\<close>

lemma readFile_writable:
  assumes "fs (getFilePath p t) = Absent \<or> (\<exists>content. fs (getFilePath p t) = File content)"
  shows "\<exists>headers rs fs1. readFile p fs t = (Inr (headers, rs), fs1)
           \<and> (fs1 (getFilePath p t) = Absent \<or> (\<exists>content. fs1 (getFilePath p t) = File content))"
  using assms
  by (auto simp: readFile_def fs_readFile_def writeFile_def fs_writeFile_def Let_def
           split: prod.splits)

lemma insertRow_succeeds:
  assumes "fs (getFilePath p t) = Absent \<or> (\<exists>content. fs (getFilePath p t) = File content)"
  shows "fst (insertRow p fs t rowData) = Inr ()"
proof -
  from readFile_writable [of fs p t] assms obtain headers rs fs1
    where rd: "readFile p fs t = (Inr (headers, rs), fs1)"
      and w: "fs1 (getFilePath p t) = Absent \<or> (\<exists>content. fs1 (getFilePath p t) = File content)"
    by blast
  from w have "writeFile p fs1 t rows' headers \<noteq> (Inl e, fs2)" for rows' e fs2
    by (auto simp: writeFile_def fs_writeFile_def)
  then show ?thesis
    by (auto simp: insertRow_def rd Let_def split: prod.splits sum.splits)
qed

subsection \<open>The remote provider keeps its client\<close>

lemma supabase_discoverForeignKeys [simp]:
  "supabase (snd (discoverForeignKeys p db t)) = supabase p"
  by (simp add: discoverForeignKeys_def Let_def split: option.splits reply.splits)

lemma supabase_discoverTableSchema [simp]:
  "supabase (snd (discoverTableSchema p db t)) = supabase p"
proof -
  have "supabase (snd (discoverForeignKeys p db t)) = supabase p" by simp
  then show ?thesis
    by (cases "discoverForeignKeys p db t")
       (auto simp: discoverTableSchema_def Let_def split: option.splits reply.splits list.splits)
qed

lemma supabase_discoverEach [simp]:
  "supabase (snd (discoverEach p db ts tables)) = supabase p"
proof (induction ts arbitrary: p tables)
  case Nil
  then show ?case by simp
next
  case (Cons t ts)
  have "supabase (snd (discoverTableSchema p db t)) = supabase p" by simp
  then show ?case using Cons.IH
    by (cases "discoverTableSchema p db t") simp
qed

lemma discoverEach_client:
  "discoverEach p db ts tables = (x, p') \<Longrightarrow> supabase p' = supabase p"
  using supabase_discoverEach [of p db ts tables] by simp

lemma supabase_discoverTables [simp]:
  "supabase (snd (discoverTables p db)) = supabase p"
  by (auto simp: discoverTables_def discoverTablesFromConfig_def
           simp del: discoverEach.simps dest: discoverEach_client
           split: option.splits reply.splits list.splits prod.splits)

lemma supabase_getTableMetadata [simp]:
  "supabase (snd (getTableMetadata p db t)) = supabase p"
proof -
  have "supabase (snd (discoverTables p db)) = supabase p" by simp
  then show ?thesis
    by (cases "discoverTables p db") (auto simp: getTableMetadata_def split: sum.splits)
qed

text \<open>
  The payload that the remote \<open>updateRow\<close> sends never names \<open>id\<close> or a readonly field,
  and a column with a discovered foreign key is a lookup to the referenced table whatever
  the manual configuration says.
\<close>

lemma sb_updates_skip_readonly:
  assumes "(n, v) \<in> set (sb_updates flds rowData)"
  shows "n \<noteq> ''id'' \<and> (\<exists>field \<in> set flds. name field = n \<and> readonly field \<noteq> Some True)"
  using assms by (auto simp: sb_updates_def)

lemma columnField_foreign_key_first:
  assumes "foreignKeys columnName = Some fk"
  shows "ftype (columnField p foreignKeys tableName columnName v) = ''lu''
         \<and> luFile (columnField p foreignKeys tableName columnName v) = Some (referencedTable fk)"
  using assms by (simp add: columnField_def)

subsection \<open>The insert loop\<close>

text \<open>
  A data line with a cell for every column of the header gives an object with every header
  column as a key.
\<close>

lemma writeRow_keys:
  assumes "length headers \<le> length cells"
  shows "set headers \<subseteq> set (map fst (writeRow headers cells))"
proof
  fix h assume "h \<in> set headers"
  then obtain k where k: "k < length headers" "headers ! k = h"
    by (auto simp: in_set_conv_nth)
  with assms have kc: "k < length cells" by simp
  have "(k, cells ! k) \<in> set (zip [0 ..< length cells] cells)"
    using kc by (auto simp: in_set_zip intro: exI [of _ k])
  then have "(h, cells ! k) \<in> set (writeRow headers cells)"
    using k by (force simp: writeRow_def elem_at_def)
  then show "h \<in> set (map fst (writeRow headers cells))"
    by force
qed



lemma import_loop_spec:
  "spec_attempts ins rs s = (os, s') \<Longrightarrow>
   import_loop ins rs i sc errs s
     = ((sc + length (filter succeeded os),
         errs @ concat (map (\<lambda>(k, outcome). failure_at k outcome) (zip [i ..< i + length os] os))), s')"
proof (induction rs arbitrary: i sc errs s os s')
  case Nil
  then show ?case by simp
next
  case (Cons r rest)
  obtain outcome s1 where step: "ins (map_of r) s = (outcome, s1)"
    by (cases "ins (map_of r) s")
  obtain os' s2 where tail: "spec_attempts ins rest s1 = (os', s2)"
    by (cases "spec_attempts ins rest s1")
  from Cons.prems step tail have os: "os = outcome # os'" and s': "s' = s2"
    by simp_all
  have upt: "[i ..< i + length os] = i # [i + 1 ..< (i + 1) + length os']"
    using os by (simp add: upt_conv_Cons del: upt_Suc)
  show ?case
  proof (cases outcome)
    case (Inl e)
    with step Cons.IH [OF tail, of "i + 1" sc "errs @ [\<lparr>row = i + 1, row_message = message e\<rparr>]"]
    show ?thesis
      unfolding upt by (simp add: os s' succeeded_def failure_at_def)
  next
    case (Inr u)
    with step Cons.IH [OF tail, of "i + 1" "sc + 1" errs]
    show ?thesis
      unfolding upt by (simp add: os s' succeeded_def failure_at_def)
  qed
qed

lemma spec_attempts_length:
  "spec_attempts ins rs s = (os, s') \<Longrightarrow> length os = length rs"
proof (induction rs arbitrary: s os)
  case Nil
  then show ?case by simp
next
  case (Cons r rest)
  then show ?case
    by (auto split: prod.splits)
qed

lemma failures_empty_iff:
  "length ks = length os \<Longrightarrow>
   (concat (map (\<lambda>(k, outcome). failure_at k outcome) (zip ks os)) = []) = list_all succeeded os"
  by (induction ks os rule: list_induct2)
     (auto simp: succeeded_def failure_at_def split: sum.splits)

lemma failures_count:
  "length ks = length os \<Longrightarrow>
   length (concat (map (\<lambda>(k, outcome). failure_at k outcome) (zip ks os)))
     + length (filter succeeded os) = length os"
  by (induction ks os rule: list_induct2)
     (auto simp: succeeded_def failure_at_def split: sum.splits)

section \<open>The claims\<close>

text \<open>
  C1, at the value \<open>a,"b"\<close>. The claim: writing a table with \<open>writeFile\<close> and reading it
  back with \<open>readFile\<close> gives the rows that were written, also for a value with a comma
  and embedded double quotes. The code: \<open>writeFile\<close> writes the row \<open>1\<close>, \<open>a,"b"\<close> as
  the line \<open>1,"a,""b"""\<close>, doubling the quotes, and \<open>readFile\<close> reads that line back as
  \<open>1\<close>, \<open>a,b\<close>: \<open>parseCSVLine\<close> toggles its quote state at every double quote and never
  emits one.
\<close>

theorem roundtrip_loses_embedded_quotes:
  "fst (writeFile demo no_files ''t'' [ [''1'', ''a,'' @ [CHR 0x22] @ ''b'' @ [CHR 0x22]] ] None)
     = Inr ()
   \<and> snd (writeFile demo no_files ''t'' [ [''1'', ''a,'' @ [CHR 0x22] @ ''b'' @ [CHR 0x22]] ] None)
         (getFilePath demo ''t'')
     = File (''1,'' @ [CHR 0x22] @ ''a,'' @ [CHR 0x22, CHR 0x22] @ ''b''
             @ [CHR 0x22, CHR 0x22, CHR 0x22])
   \<and> fst (readFile demo
              (snd (writeFile demo no_files ''t''
                      [ [''1'', ''a,'' @ [CHR 0x22] @ ''b'' @ [CHR 0x22]] ] None)) ''t'')
     = Inr (None, [ [''1'', ''a,b''] ])"
  by code_simp

text \<open>
  C2, on a table file with a header line. The claim: \<open>update(id, row)\<close> keeps the existing
  value of every readonly field, in particular the id. The code of the file-backed
  provider: \<open>getTableData\<close> marks the field \<open>id\<close> readonly, but \<open>updateRow\<close> tests the
  \<open>readonly\<close> property of the header objects of \<open>readFile\<close>, which have none, so under
  a header line every field is taken from the payload: updating row \<open>1\<close> with
  \<open>{id: '99', Name: 'X'}\<close> rewrites the line \<open>1,Bob\<close> as \<open>99,X\<close>.
\<close>

theorem update_overwrites_id_under_header:
  "fst (getTableData demo (table_file demo ''t'' (''id:int,Name:str'' @ [CHR 0x0A] @ ''1,Bob'')) ''t'')
     = Inr \<lparr>object = ''t'', title = ''T'',
            headings = [\<lparr>name = ''id'', ftype = ''integer'', luFile = None, readonly = Some True\<rparr>,
                        \<lparr>name = ''Name'', ftype = ''text'', luFile = None, readonly = Some False\<rparr>],
            rows = [ [''1'', ''Bob''] ]\<rparr>
   \<and> fst (updateRow demo (table_file demo ''t'' (''id:int,Name:str'' @ [CHR 0x0A] @ ''1,Bob''))
            ''t'' ''1'' [''id'' \<mapsto> ''99'', ''Name'' \<mapsto> ''X'']) = Inr ()
   \<and> snd (updateRow demo (table_file demo ''t'' (''id:int,Name:str'' @ [CHR 0x0A] @ ''1,Bob''))
            ''t'' ''1'' [''id'' \<mapsto> ''99'', ''Name'' \<mapsto> ''X'']) (getFilePath demo ''t'')
     = File (''id:int,Name:str'' @ [CHR 0x0A] @ ''99,X'')"
  by code_simp

text \<open>
  C3, on a column with both a foreign key and a manual lookup. The claim: the manual
  configuration gives the lookup target. The code of \<open>discoverTableSchema\<close>: the
  foreign-key test comes first and the manual configuration is only read in its else
  branch, so the column \<open>country_id\<close> of \<open>cities\<close>, with a foreign key to \<open>countries\<close> and
  a manual mapping to \<open>regions\<close>, is a lookup to \<open>countries\<close>.
\<close>

theorem discovered_foreign_key_beats_manual_lookup:
  "(case sb_lookupConfig demo_remote ''cities'' of
      Some cols \<Rightarrow> cols ''country_id'' | None \<Rightarrow> None) = Some ''regions''
   \<and> fst (discoverForeignKeys demo_remote () ''cities'') ''country_id''
       = Some \<lparr>referencedTable = ''countries'', referencedColumn = ''id''\<rparr>
   \<and> fst (discoverTableSchema demo_remote () ''cities'')
       = [\<lparr>name = ''id'', ftype = ''integer'', luFile = None, readonly = Some True\<rparr>,
          \<lparr>name = ''name'', ftype = ''text'', luFile = None, readonly = Some False\<rparr>,
          \<lparr>name = ''country_id'', ftype = ''lu'', luFile = Some ''countries'',
            readonly = Some False\<rparr>]"
  by code_simp




text \<open>
  C5. For every CSV import that passes parsing and column validation, the response is
  status 200 with the report of one insert attempt per parsed row, in order, each made in
  the state the earlier attempts left and none skipped after a failure: \<open>imported\<close> counts
  the successes, \<open>total\<close> the rows, and \<open>errors\<close> lists each failure with its 1-based
  row index and message, and is absent exactly when no row failed. Successes and failures
  add up to the number of rows.
\<close>

theorem import_csv_reports_every_row:
  assumes upload: "req_file req = Some (Inr results)"
      and nonempty: "results \<noteq> []"
      and obj: "req_object req \<noteq> []"
      and src: "req_source req \<noteq> []"
      and schema: "manager_getTableData providers (req_source req) (req_object req) s
                   = (Inr tableData, s1)"
      and valid: "\<forall>col \<in> set (map fst (hd results)). col \<in> set (map name (headings tableData))"
      and run: "spec_attempts (manager_insertRow providers (req_source req) (req_object req))
                  results s1 = (outcomes, s2)"
  shows "import_csv providers req s = (Status200 (spec_summary outcomes), s2)
         \<and> length outcomes = length results
         \<and> imported (spec_summary outcomes) + length (spec_failures outcomes) = length results"
proof -
  have inv: "filter (\<lambda>col. col \<notin> set (map name (headings tableData))) (map fst (hd results)) = []"
    using valid by (auto simp: filter_empty_conv)
  have len: "length outcomes = length results"
    using run by (rule spec_attempts_length)
  have loop: "import_loop (manager_insertRow providers (req_source req) (req_object req))
                results 0 0 [] s1
              = ((length (filter succeeded outcomes), spec_failures outcomes), s2)"
    using import_loop_spec [OF run, of 0 0 "[]"] by (simp add: spec_failures_def)
  have none: "(spec_failures outcomes = []) = list_all succeeded outcomes"
    unfolding spec_failures_def by (rule failures_empty_iff) simp
  have a: "import_csv providers req s = (Status200 (spec_summary outcomes), s2)"
    using upload nonempty obj src schema inv loop len none
    by (simp add: import_csv_def Let_def spec_summary_def)
  have c: "imported (spec_summary outcomes) + length (spec_failures outcomes) = length results"
    using failures_count [of "[0 ..< length outcomes]" outcomes] len
    by (simp add: spec_summary_def spec_failures_def)
  from a len c show ?thesis by simp
qed

text \<open>
  The example of the specification: of three rows the second fails on a duplicate, and the
  report is \<open>{imported: 2, total: 3, errors: [{row: 2, ...}]}\<close>.
\<close>

theorem import_csv_reports_every_row_witness:
  "spec_attempts (manager_insertRow name_sources ''names'' ''people'')
       [ [(''Name'', ''Ann'')], [(''Name'', ''Ann'')], [(''Name'', ''Bea'')] ] []
     = ([Inr (), Inl (Error ''Failed to insert row: duplicate key value''), Inr ()], [''Ann'', ''Bea''])
   \<and> import_csv name_sources names_request []
     = (Status200 \<lparr>imported = 2, total = 3,
                   errors = Some [\<lparr>row = 2, row_message = ''Failed to insert row: duplicate key value''\<rparr>]\<rparr>,
        [''Ann'', ''Bea''])"
proof -
  let ?results = "[ [(''Name'', ''Ann'')], [(''Name'', ''Ann'')], [(''Name'', ''Bea'')] ]"
  let ?td = "\<lparr>object = ''people'', title = ''people'',
                 headings = [\<lparr>name = ''id'', ftype = ''integer'', luFile = None, readonly = Some True\<rparr>,
                             \<lparr>name = ''Name'', ftype = ''text'', luFile = None, readonly = Some False\<rparr>],
                 rows = ([] :: string list list)\<rparr>"
  let ?outcomes = "[Inr (), Inl (Error ''Failed to insert row: duplicate key value''), Inr ()]"
  have upload: "req_file names_request = Some (Inr ?results)"
    by (simp add: names_request_def)
  have nonempty: "?results \<noteq> []" by simp
  have obj: "req_object names_request \<noteq> []" and src: "req_source names_request \<noteq> []"
    by (simp_all add: names_request_def)
  have schema: "manager_getTableData name_sources (req_source names_request)
                  (req_object names_request) [] = (Inr ?td, [])"
    by code_simp
  have valid: "\<forall>col \<in> set (map fst (hd ?results)). col \<in> set (map name (headings ?td))"
    by simp
  have run: "spec_attempts (manager_insertRow name_sources (req_source names_request)
                              (req_object names_request)) ?results []
             = (?outcomes, [''Ann'', ''Bea''])"
    by code_simp
  have run': "spec_attempts (manager_insertRow name_sources ''names'' ''people'') ?results []
             = (?outcomes, [''Ann'', ''Bea''])"
    by code_simp
  have summary: "spec_summary ?outcomes
                 = \<lparr>imported = 2, total = 3,
                    errors = Some [\<lparr>row = 2, row_message = ''Failed to insert row: duplicate key value''\<rparr>]\<rparr>"
    by code_simp
  from import_csv_reports_every_row [OF upload nonempty obj src schema valid run] run' summary
  show ?thesis by simp
qed

text \<open>
  C6, as stated, fails on a table whose ids are all negative: the claim gives the next row
  one plus the largest existing id, here \<open>-2\<close>, and \<open>insertRow\<close>, whose maximum starts
  from 0, assigns \<open>1\<close>.
\<close>

theorem insert_after_negative_id_counterexample:
  "fst (readFile demo (table_file demo ''t'' ''-3,x'') ''t'') = Inr (None, [ [''-3'', ''x''] ])
   \<and> existingIds [ [''-3'', ''x''] ] = [- 3]
   \<and> String_of (spec_nextId [ [''-3'', ''x''] ]) = ''-2''
   \<and> fst (insertRow demo (table_file demo ''t'' ''-3,x'') ''t'' Map.empty) = Inr ()
   \<and> snd (insertRow demo (table_file demo ''t'' ''-3,x'') ''t'' Map.empty) (getFilePath demo ''t'')
       = File (''-3,x'' @ [CHR 0x0A] @ ''1,'')
   \<and> fst (readFile demo (snd (insertRow demo (table_file demo ''t'' ''-3,x'') ''t'' Map.empty)) ''t'')
       = Inr (None, [ [''-3'', ''x''], [''1'', ''''] ])"
  by code_simp

text \<open>
  C6, amended. For every successful insert via the file-backed provider into a table whose
  ids are below \<open>2 ^ 53\<close> in absolute value, the file is rewritten with the rows read and one new row after
  them; the new row has one cell per field, and the cell of every field named \<open>id\<close> (in
  any letter case) holds one plus the largest of 0 and the existing numeric ids. With no
  header line the first cell is that id. The value equals the specification's (one plus the
  largest existing id, or 1 for an empty table) whenever the table is empty or holds a
  non-negative id. An \<open>id\<close> entry of the payload is ignored: adding, changing or removing it
  changes neither the result nor the file.
\<close>

theorem insertRow_assigns_next_id:
  assumes rd: "readFile p fs tableName = (Inr (headers, rs), fs1)"
      and ok: "insertRow p fs tableName rowData = (Inr (), fs2)"
      and exact: "\<forall>i \<in> set (existingIds rs). \<bar>i\<bar> < 2 ^ 53"
  shows
    "let newId = 1 + Max (insert 0 (set (existingIds rs)));
         flds = (case headers of
                   Some hs \<Rightarrow> hs
                 | None \<Rightarrow> (if rs = [] then defaultFields else inferredFields (hd rs)));
         newRow = map (\<lambda>field. if toLowerCase (name field) = ''id'' then String_of newId
                                else payloadValue rowData (name field)) flds
     in fs2 = fs1(getFilePath p tableName := File (fileContent (rs @ [newRow]) headers))
        \<and> (headers = None \<longrightarrow> newRow \<noteq> [] \<and> hd newRow = String_of newId)
        \<and> (existingIds rs = [] \<or> (\<exists>i \<in> set (existingIds rs). 0 \<le> i) \<longrightarrow> newId = spec_nextId rs)
        \<and> (\<forall>k v. toLowerCase k = ''id'' \<longrightarrow>
              insertRow p fs tableName (rowData(k := v)) = insertRow p fs tableName rowData)"
proof -
  define newId where "newId = 1 + Max (insert 0 (set (existingIds rs)))"
  define flds where "flds = (case headers of
                   Some hs \<Rightarrow> hs
                 | None \<Rightarrow> (if rs = [] then defaultFields else inferredFields (hd rs)))"
  define newRow where "newRow = map (\<lambda>field. if toLowerCase (name field) = ''id'' then String_of newId
                                else payloadValue rowData (name field)) flds"
  have nid: "maxIdOf rs + 1 = newId"
    by (simp add: newId_def maxIdOf_Max)
  have fl: "(case headers of
               Some hs \<Rightarrow> hs
             | None \<Rightarrow> (if length rs > 0 then inferredFields (hd rs) else defaultFields)) = flds"
    by (cases headers; cases "rs = []") (simp_all add: flds_def)
  have "insertRow p fs tableName rowData
        = (case writeFile p fs1 tableName (rs @ [newRow]) headers of
             (Inl e, fs'') \<Rightarrow> (Inl (Error (''Failed to insert row: '' @ message e)), fs'')
           | (Inr u, fs'') \<Rightarrow> (Inr (), fs''))"
    unfolding newRow_def flds_def newId_def
    by (cases headers; cases "rs = []")
       (simp_all add: insertRow_def rd Let_def maxIdOf_Max add.commute cong del: if_weak_cong)
  with ok have "\<exists>u. writeFile p fs1 tableName (rs @ [newRow]) headers = (Inr u, fs2)"
    by (auto split: prod.splits sum.splits)
  then have a: "fs2 = fs1(getFilePath p tableName := File (fileContent (rs @ [newRow]) headers))"
    using writeFile_success by blast
  have b: "newRow \<noteq> [] \<and> hd newRow = String_of newId" if "headers = None"
  proof (cases "rs = []")
    case True
    with that show ?thesis
      by (simp add: newRow_def flds_def defaultFields_def toLowerCase_def toLowerChar_def)
  next
    case False
    then have "hd rs \<noteq> []" using readFile_rows_nonempty [OF rd] by simp
    then obtain c cs where "hd rs = c # cs" by (cases "hd rs") auto
    then have "\<exists>others. inferredFields (hd rs)
               = \<lparr>name = ''id'', ftype = ''text'', luFile = None, readonly = Some True\<rparr> # others"
      by (simp add: inferredFields_def upt_rec [of 0])
    then obtain others where "inferredFields (hd rs)
               = \<lparr>name = ''id'', ftype = ''text'', luFile = None, readonly = Some True\<rparr> # others"
      by blast
    with that False show ?thesis
      by (simp add: newRow_def flds_def toLowerCase_def toLowerChar_def)
  qed
  have c: "newId = spec_nextId rs" if "existingIds rs = [] \<or> (\<exists>i \<in> set (existingIds rs). 0 \<le> i)"
  proof (cases "existingIds rs = []")
    case True
    then show ?thesis by (simp add: newId_def spec_nextId_def)
  next
    case False
    with that obtain i where i: "i \<in> set (existingIds rs)" "0 \<le> i" by auto
    have "Max (set (existingIds rs)) \<ge> i" using i by simp
    then have "0 \<le> Max (set (existingIds rs))" using i by linarith
    then have "Max (insert 0 (set (existingIds rs))) = Max (set (existingIds rs))"
      using False by (simp add: max_def)
    then show ?thesis using False by (simp add: newId_def spec_nextId_def)
  qed
  have d: "\<forall>k v. toLowerCase k = ''id'' \<longrightarrow>
              insertRow p fs tableName (rowData(k := v)) = insertRow p fs tableName rowData"
    using insertRow_ignores_id_key by blast
  from a b c d show ?thesis
    unfolding Let_def newId_def [symmetric] flds_def [symmetric] newRow_def [symmetric]
    by blast
qed

theorem insertRow_assigns_next_id_witness:
  "fst (readFile demo (table_file demo ''people'' people_file) ''people'')
     = Inr (None, [ [''1'', ''Bob''], [''7'', ''Al''] ])
   \<and> fst (insertRow demo (table_file demo ''people'' people_file) ''people''
             [''id'' \<mapsto> ''99'', ''Column1'' \<mapsto> ''Cy'']) = Inr ()
   \<and> existingIds [ [''1'', ''Bob''], [''7'', ''Al''] ] = [1, 7]
   \<and> spec_nextId [ [''1'', ''Bob''], [''7'', ''Al''] ] = 8
   \<and> snd (insertRow demo (table_file demo ''people'' people_file) ''people''
             [''id'' \<mapsto> ''99'', ''Column1'' \<mapsto> ''Cy'']) (getFilePath demo ''people'')
       = File (people_file @ [CHR 0x0A] @ ''8,Cy'')
   \<and> insertRow demo (table_file demo ''people'' people_file) ''people''
         ([''id'' \<mapsto> ''99'', ''Column1'' \<mapsto> ''Cy''](''id'' := None))
       = insertRow demo (table_file demo ''people'' people_file) ''people''
           [''id'' \<mapsto> ''99'', ''Column1'' \<mapsto> ''Cy'']"
proof -
  let ?fs = "table_file demo ''people'' people_file"
  let ?rs = "[ [''1'', ''Bob''], [''7'', ''Al''] ]"
  let ?payload = "[''id'' \<mapsto> ''99'', ''Column1'' \<mapsto> ''Cy'']"
  have r: "fst (readFile demo ?fs ''people'') = Inr (None, ?rs)"
    by code_simp
  have i: "fst (insertRow demo ?fs ''people'' ?payload) = Inr ()"
    by code_simp
  have rd: "readFile demo ?fs ''people'' = (Inr (None, ?rs), snd (readFile demo ?fs ''people''))"
    using r by (simp add: prod_eq_iff)
  have ok: "insertRow demo ?fs ''people'' ?payload
            = (Inr (), snd (insertRow demo ?fs ''people'' ?payload))"
    using i by (simp add: prod_eq_iff)
  have ids: "existingIds ?rs = [1, 7]"
    by code_simp
  have exact: "\<forall>i \<in> set (existingIds ?rs). \<bar>i\<bar> < 2 ^ 53"
    by (simp add: ids)
  have low: "toLowerCase ''id'' = ''id''"
    by code_simp
  define newRow where
    "newRow = map (\<lambda>field. if toLowerCase (name field) = ''id''
                            then String_of (1 + Max (insert 0 (set (existingIds ?rs))))
                            else payloadValue ?payload (name field))
                (if ?rs = [] then defaultFields else inferredFields (hd ?rs))"
  have content: "fileContent (?rs @ [newRow]) None = people_file @ [CHR 0x0A] @ ''8,Cy''"
    unfolding newRow_def by code_simp
  note T = insertRow_assigns_next_id [OF rd ok exact, unfolded Let_def option.case,
              folded newRow_def]
  have a: "snd (insertRow demo ?fs ''people'' ?payload) (getFilePath demo ''people'')
           = File (people_file @ [CHR 0x0A] @ ''8,Cy'')"
    using T [THEN conjunct1] content by simp
  have n: "spec_nextId ?rs = 8"
    using T [THEN conjunct2, THEN conjunct2, THEN conjunct1] ids by simp
  have b: "insertRow demo ?fs ''people'' (?payload(''id'' := None))
           = insertRow demo ?fs ''people'' ?payload"
    using T [THEN conjunct2, THEN conjunct2, THEN conjunct2] low by blast
  from r i ids n a b show ?thesis by blast
qed

text \<open>
  C7, as stated, fails for the file-backed provider: \<open>getTableData\<close> returns the rows of a
  file holding id 2 before id 1 in that order.
\<close>

theorem file_order_counterexample:
  "fst (getTableData demo (table_file demo ''t'' (''2,b'' @ [CHR 0x0A] @ ''1,a'')) ''t'')
     = Inr \<lparr>object = ''t'', title = ''T'',
            headings = [\<lparr>name = ''id'', ftype = ''text'', luFile = None, readonly = Some True\<rparr>,
                        \<lparr>name = ''Column1'', ftype = ''text'', luFile = None, readonly = Some False\<rparr>],
            rows = [ [''2'', ''b''], [''1'', ''a''] ]\<rparr>
   \<and> existingIds [ [''2'', ''b''], [''1'', ''a''] ] = [2, 1]
   \<and> \<not> ascendingById [ [''2'', ''b''], [''1'', ''a''] ]"
  by code_simp

text \<open>
  C7, amended. \<open>getTableData\<close> of the remote-relational provider returns all rows
  ordered by id ascending: its rows are the records that the service answers to the query
  ordered by id ascending, in the order of that answer, each projected on the fields of
  the schema, so for a service that honours the order the records, and the cells of a field
  named \<open>id\<close>, ascend. \<open>getTableData\<close> of the file-backed provider returns all rows of the
  table in the order of the file's data lines: each row is the fields of its line, with an
  id put in front when the line had none; when every data line starts with a numeric id,
  the ids of the rows are those of the lines and the rows are ordered by id ascending
  exactly when the lines are.
\<close>

theorem getTableData_row_order:
  "(fs_readFile fs (getFilePath p tableName) = Inr content
      \<and> fst (getTableData p fs tableName) = Inr td
    \<longrightarrow> list_all2 (\<lambda>r line. case leadingId (parseCSVLine line) of
                               Some i \<Rightarrow> r = parseCSVLine line
                             | None \<Rightarrow> r \<noteq> [] \<and> tl r = parseCSVLine line)
          (rows td) (dataLines content)
        \<and> ((\<forall>line \<in> set (dataLines content). leadingId (parseCSVLine line) \<noteq> None)
             \<longrightarrow> existingIds (rows td) = lineIds content
                 \<and> ascendingById (rows td) = sorted (lineIds content)))
   \<and> (fst (sb_getTableData q db remoteTable) = Inr rtd
      \<and> (\<forall>records. select_order_id_ascending (supabase q) remoteTable db = Reply (Some records) None
            \<longrightarrow> sorted_wrt (\<lambda>a b. le (column a ''id'') (column b ''id'')) records)
    \<longrightarrow> (\<exists>records. select_order_id_ascending (supabase q) remoteTable db = Reply (Some records) None
                   \<and> rows rtd = map (\<lambda>r. map (\<lambda>f. column r (name f)) (headings rtd)) records
                   \<and> sorted_wrt (\<lambda>a b. le (column a ''id'') (column b ''id'')) records
                   \<and> (\<forall>k < length (headings rtd). name (headings rtd ! k) = ''id''
                         \<longrightarrow> sorted_wrt (\<lambda>a b. le (a ! k) (b ! k)) (rows rtd))))"
proof (intro conjI impI)
  assume a: "fs_readFile fs (getFilePath p tableName) = Inr content
      \<and> fst (getTableData p fs tableName) = Inr td"
  then obtain headers fs' where rd: "readFile p fs tableName = (Inr (headers, rows td), fs')"
    using getTableData_rows by blast
  from rd show order: "list_all2 (\<lambda>r line. case leadingId (parseCSVLine line) of
                               Some i \<Rightarrow> r = parseCSVLine line
                             | None \<Rightarrow> r \<noteq> [] \<and> tl r = parseCSVLine line)
          (rows td) (dataLines content)"
  proof (cases rule: readFile_success)
    case (missing e)
    with a show ?thesis by simp
  next
    case (present content' b)
    with a have "content' = content" by simp
    with present readRows_in_file_order [of "dataLines content" 1 False "[]"] show ?thesis
      by simp
  qed
  assume numbered: "\<forall>line \<in> set (dataLines content). leadingId (parseCSVLine line) \<noteq> None"
  from rows_of_numbered_lines [OF order numbered]
  show ids: "existingIds (rows td) = lineIds content"
    by (simp add: lineIds_def)
  then show "ascendingById (rows td) = sorted (lineIds content)"
    by (simp add: ascendingById_def)
next
  assume a: "fst (sb_getTableData q db remoteTable) = Inr rtd
      \<and> (\<forall>records. select_order_id_ascending (supabase q) remoteTable db = Reply (Some records) None
            \<longrightarrow> sorted_wrt (\<lambda>a b. le (column a ''id'') (column b ''id'')) records)"
  obtain res q1 where m: "getTableMetadata q db remoteTable = (res, q1)"
    by (cases "getTableMetadata q db remoteTable")
  have s: "supabase q1 = supabase q"
    using supabase_getTableMetadata [of q db remoteTable] m by simp
  from a m s obtain records
    where reply: "select_order_id_ascending (supabase q) remoteTable db = Reply (Some records) None"
      and proj: "rows rtd = map (\<lambda>r. map (\<lambda>f. column r (name f)) (headings rtd)) records"
    by (auto simp: sb_getTableData_def split: sum.splits option.splits reply.splits)
  from a reply have asc: "sorted_wrt (\<lambda>a b. le (column a ''id'') (column b ''id'')) records"
    by blast
  have cells: "sorted_wrt (\<lambda>a b. le (a ! k) (b ! k)) (rows rtd)"
    if "k < length (headings rtd)" and "name (headings rtd ! k) = ''id''" for k
    using that asc by (simp add: proj sorted_wrt_map)
  from reply proj asc cells
  show "\<exists>records. select_order_id_ascending (supabase q) remoteTable db = Reply (Some records) None
                   \<and> rows rtd = map (\<lambda>r. map (\<lambda>f. column r (name f)) (headings rtd)) records
                   \<and> sorted_wrt (\<lambda>a b. le (column a ''id'') (column b ''id'')) records
                   \<and> (\<forall>k < length (headings rtd). name (headings rtd ! k) = ''id''
                         \<longrightarrow> sorted_wrt (\<lambda>a b. le (a ! k) (b ! k)) (rows rtd))"
    by blast
qed

theorem getTableData_row_order_witness:
  "fs_readFile (table_file demo ''t'' (''1,a'' @ [CHR 0x0A] @ ''2,b'')) (getFilePath demo ''t'')
     = Inr (''1,a'' @ [CHR 0x0A] @ ''2,b'')
   \<and> fst (getTableData demo (table_file demo ''t'' (''1,a'' @ [CHR 0x0A] @ ''2,b'')) ''t'')
       = Inr \<lparr>object = ''t'', title = ''T'',
              headings = [\<lparr>name = ''id'', ftype = ''text'', luFile = None, readonly = Some True\<rparr>,
                          \<lparr>name = ''Column1'', ftype = ''text'', luFile = None, readonly = Some False\<rparr>],
              rows = [ [''1'', ''a''], [''2'', ''b''] ]\<rparr>
   \<and> dataLines (''1,a'' @ [CHR 0x0A] @ ''2,b'') = [''1,a'', ''2,b'']
   \<and> lineIds (''1,a'' @ [CHR 0x0A] @ ''2,b'') = [1, 2]
   \<and> existingIds [ [''1'', ''a''], [''2'', ''b''] ] = [1, 2]
   \<and> ascendingById [ [''1'', ''a''], [''2'', ''b''] ]
   \<and> fst (sb_getTableData demo_remote () ''cities'')
       = Inr \<lparr>object = ''cities'', title = ''Cities'',
              headings = [\<lparr>name = ''id'', ftype = ''integer'', luFile = None, readonly = Some True\<rparr>,
                          \<lparr>name = ''name'', ftype = ''text'', luFile = None, readonly = Some False\<rparr>,
                          \<lparr>name = ''country_id'', ftype = ''lu'', luFile = Some ''countries'',
                            readonly = Some False\<rparr>],
              rows = [ [JNumber 1, JStr ''Paris'', JNumber 3], [JNumber 2, JStr ''Lyon'', JNumber 3] ]\<rparr>
   \<and> sorted_wrt (\<lambda>a b. numericLe (a ! 0) (b ! 0))
        [ [JNumber 1, JStr ''Paris'', JNumber 3], [JNumber 2, JStr ''Lyon'', JNumber 3] ]"
proof -
  let ?content = "''1,a'' @ [CHR 0x0A] @ ''2,b''"
  let ?fs = "table_file demo ''t'' ?content"
  let ?td = "\<lparr>object = ''t'', title = ''T'',
              headings = [\<lparr>name = ''id'', ftype = ''text'', luFile = None, readonly = Some True\<rparr>,
                          \<lparr>name = ''Column1'', ftype = ''text'', luFile = None, readonly = Some False\<rparr>],
              rows = [ [''1'', ''a''], [''2'', ''b''] ]\<rparr>"
  let ?rtd = "\<lparr>object = ''cities'', title = ''Cities'',
              headings = [\<lparr>name = ''id'', ftype = ''integer'', luFile = None, readonly = Some True\<rparr>,
                          \<lparr>name = ''name'', ftype = ''text'', luFile = None, readonly = Some False\<rparr>,
                          \<lparr>name = ''country_id'', ftype = ''lu'', luFile = Some ''countries'',
                            readonly = Some False\<rparr>],
              rows = [ [JNumber 1, JStr ''Paris'', JNumber 3], [JNumber 2, JStr ''Lyon'', JNumber 3] ]\<rparr>"
  have c: "fs_readFile ?fs (getFilePath demo ''t'') = Inr ?content"
    by (simp add: fs_readFile_def table_file_def)
  have g: "fst (getTableData demo ?fs ''t'') = Inr ?td"
    by code_simp
  have d: "dataLines ?content = [''1,a'', ''2,b'']"
    by code_simp
  have l: "lineIds ?content = [1, 2]"
    by code_simp
  have numbered: "\<forall>line \<in> set (dataLines ?content). leadingId (parseCSVLine line) \<noteq> None"
    by code_simp
  have s: "fst (sb_getTableData demo_remote () ''cities'') = Inr ?rtd"
    by code_simp
  have honours: "\<forall>records. select_order_id_ascending (supabase demo_remote) ''cities'' ()
                              = Reply (Some records) None
                   \<longrightarrow> sorted_wrt (\<lambda>a b. numericLe (column a ''id'') (column b ''id'')) records"
    by (auto simp: demo_remote_def demo_client_def numericLe_def column_def)
  note T = getTableData_row_order [of ?fs demo "''t''" ?content ?td demo_remote "()" "''cities''"
             ?rtd numericLe]
  from T c g numbered have ids: "existingIds (rows ?td) = lineIds ?content"
    and asc: "ascendingById (rows ?td) = sorted (lineIds ?content)"
    by blast+
  from T s honours
  have "\<forall>k < length (headings ?rtd). name (headings ?rtd ! k) = ''id''
          \<longrightarrow> sorted_wrt (\<lambda>a b. numericLe (a ! k) (b ! k)) (rows ?rtd)"
    by blast
  then have remote: "sorted_wrt (\<lambda>a b. numericLe (a ! 0) (b ! 0)) (rows ?rtd)"
    by (elim allE [of _ 0]) simp
  from c g d l ids asc s remote show ?thesis
    by simp
qed

text \<open>
  C8, as stated, fails on a table file with a line that has no id: deleting the id \<open>5\<close>,
  which no row has, fails with \<open>Row not found\<close>, but the read at the start of the call has
  put the id \<open>1\<close> in front of the line \<open>x,y\<close> and saved the file.
\<close>

theorem delete_missing_id_rewrites_file_counterexample:
  "table_file demo ''t'' ''x,y'' (getFilePath demo ''t'') = File ''x,y''
   \<and> fst (readFile demo (table_file demo ''t'' ''x,y'') ''t'') = Inr (None, [ [''1'', ''x'', ''y''] ])
   \<and> fst (deleteRow demo (table_file demo ''t'' ''x,y'') ''t'' ''5'')
       = Inl (Error ''Failed to delete row: Row not found'')
   \<and> snd (deleteRow demo (table_file demo ''t'' ''x,y'') ''t'' ''5'') (getFilePath demo ''t'')
       = File ''1,x,y''"
  by code_simp

text \<open>
  C8, amended. For every table that can be read and every id that no row read has,
  \<open>deleteRow\<close> fails with \<open>Row not found\<close> and writes nothing itself: the file system
  after the call is the one that the read at the start of the call leaves. That is the file
  system before the call, or the one where the table file holds the rows read, none
  removed, with the ids the read has added; it is the file system before the call
  whenever every data line of the file starts with a numeric id.
\<close>

theorem deleteRow_missing_id:
  assumes rd: "readFile p fs tableName = (Inr (headers, rs), fs1)"
      and absent: "\<forall>r \<in> set rs. elem_at r 0 \<noteq> Some rid"
  shows "deleteRow p fs tableName rid = (Inl (Error ''Failed to delete row: Row not found''), fs1)
         \<and> (fs1 = fs \<or> fs1 = fs(getFilePath p tableName := File (fileContent rs headers)))
         \<and> (\<forall>content. fs_readFile fs (getFilePath p tableName) = Inr content
               \<and> (\<forall>line \<in> set (dataLines content). leadingId (parseCSVLine line) \<noteq> None)
               \<longrightarrow> fs1 = fs)"
proof -
  have "filter (\<lambda>r. elem_at r 0 \<noteq> Some rid) rs = rs"
    using absent by (simp add: filter_id_conv)
  then have a: "deleteRow p fs tableName rid = (Inl (Error ''Failed to delete row: Row not found''), fs1)"
    using rd by (simp add: deleteRow_def)
  from rd have b: "fs1 = fs \<or> fs1 = fs(getFilePath p tableName := File (fileContent rs headers))"
    by (cases rule: readFile_success) auto
  have c: "fs1 = fs" if "fs_readFile fs (getFilePath p tableName) = Inr content"
      and "\<forall>line \<in> set (dataLines content). leadingId (parseCSVLine line) \<noteq> None" for content
    using rd
  proof (cases rule: readFile_success)
    case (missing e)
    then show ?thesis by simp
  next
    case (present content' b)
    with that have "content' = content" by simp
    with present that readRows_flag [of "dataLines content" 1 False "[]"] have "\<not> b" by simp
    with present show ?thesis by simp
  qed
  from a b c show ?thesis by blast
qed

theorem deleteRow_missing_id_witness:
  "fst (readFile demo (table_file demo ''t'' ''1,x,y'') ''t'') = Inr (None, [ [''1'', ''x'', ''y''] ])
   \<and> elem_at [''1'', ''x'', ''y''] 0 = Some ''1''
   \<and> fst (deleteRow demo (table_file demo ''t'' ''1,x,y'') ''t'' ''5'')
       = Inl (Error ''Failed to delete row: Row not found'')
   \<and> snd (deleteRow demo (table_file demo ''t'' ''1,x,y'') ''t'' ''5'') = table_file demo ''t'' ''1,x,y''"
proof -
  let ?fs = "table_file demo ''t'' ''1,x,y''"
  let ?rs = "[ [''1'', ''x'', ''y''] ]"
  have r: "fst (readFile demo ?fs ''t'') = Inr (None, ?rs)"
    by code_simp
  have rd: "readFile demo ?fs ''t'' = (Inr (None, ?rs), snd (readFile demo ?fs ''t''))"
    using r by (simp add: prod_eq_iff)
  have absent: "\<forall>r \<in> set ?rs. elem_at r 0 \<noteq> Some ''5''"
    by code_simp
  have c: "fs_readFile ?fs (getFilePath demo ''t'') = Inr ''1,x,y''"
    by (simp add: fs_readFile_def table_file_def)
  have ids: "\<forall>line \<in> set (dataLines ''1,x,y''). leadingId (parseCSVLine line) \<noteq> None"
    by code_simp
  have first: "elem_at [''1'', ''x'', ''y''] 0 = Some ''1''"
    by code_simp
  from deleteRow_missing_id [OF rd absent] r first c ids
  show ?thesis by simp
qed

text \<open>
  C9. With \<open>authRequired\<close> set to true, \<open>login(email, password)\<close> of the file-backed
  provider reports success for every email and password, and the user it returns is built
  from the supplied email (both its id and its email); whatever the setting, the provider
  never rejects a credential.
\<close>

theorem login_accepts_every_credential:
  "login (p\<lparr>authRequired := True\<rparr>) email_arg password =
     \<lparr>success = True, login_user = \<lparr>user_id = email_arg, email = email_arg\<rparr>\<rparr>
   \<and> success (login p email_arg password)"
  by (simp add: login_def)

text \<open>
  C10. When the read of a table's backing file fails with \<open>ENOENT\<close>, \<open>readFile\<close> does not
  fail: it returns no headers and no rows and leaves the file system as it was, and
  \<open>getTableData\<close> succeeds with an empty row list and the single default descriptor of
  the \<open>id\<close> field (type integer, readonly).
\<close>

theorem missing_file_reads_as_empty_table:
  assumes "fs_readFile fs (getFilePath p tableName) = Inl e" and "code e = Some ''ENOENT''"
  shows "readFile p fs tableName = (Inr (None, []), fs)
         \<and> getTableData p fs tableName =
             (Inr \<lparr>object = tableName, title = formatTitle tableName,
                   headings = [\<lparr>name = ''id'', ftype = ''integer'', luFile = None,
                                 readonly = Some True\<rparr>],
                   rows = []\<rparr>, fs)"
proof -
  have r: "readFile p fs tableName = (Inr (None, []), fs)"
    using assms by (simp add: readFile_def)
  then show ?thesis
    by (simp add: getTableData_def defaultFields_def)
qed

theorem missing_file_reads_as_empty_table_witness:
  "fs_readFile no_files (getFilePath demo ''countries'')
     = Inl (SystemError ''ENOENT'' ''ENOENT: no such file or directory, open ./data/countries.txt'')
   \<and> code (SystemError ''ENOENT'' ''ENOENT: no such file or directory, open ./data/countries.txt'')
       = Some ''ENOENT''
   \<and> readFile demo no_files ''countries'' = (Inr (None, []), no_files)
   \<and> getTableData demo no_files ''countries''
       = (Inr \<lparr>object = ''countries'', title = ''Countries'',
               headings = [\<lparr>name = ''id'', ftype = ''integer'', luFile = None, readonly = Some True\<rparr>],
               rows = []\<rparr>, no_files)"
proof -
  let ?e = "SystemError ''ENOENT'' ''ENOENT: no such file or directory, open ./data/countries.txt''"
  have h: "fs_readFile no_files (getFilePath demo ''countries'') = Inl ?e"
    by (simp add: fs_readFile_def getFilePath_def no_files_def demo_def)
  have c: "code ?e = Some ''ENOENT''" by simp
  have t: "formatTitle ''countries'' = ''Countries''" by code_simp
  from missing_file_reads_as_empty_table [OF h c] h t show ?thesis by simp
qed

end
